theory Spec2Isabelle
  imports Complex_Main
begin

section \<open>Arrays, shapes and broadcasting\<close>

text \<open>
  The notebook computes on two-dimensional arrays (song features, people parameters,
  ratings) and on their rows. An array is a shape together with its entries; entries are
  modelled as real numbers (exact arithmetic: rounding of the 32-bit floats is not part of
  the model). The one non-finite value kept here is the NaN that the mean of an array
  without entries yields; the section on machine arithmetic below writes the same
  functions over values that include the infinities and NaN.

  Arithmetic on two arrays follows the numpy broadcasting rule that jax.numpy implements:
  two extents are compatible when they are equal or one of them is 1; an axis of extent 1
  is then read at index 0 for every index of the result. Incompatible extents raise an
  exception, modelled as the error value \<open>IncompatibleShapes\<close>.
\<close>

datatype error = IncompatibleShapes

datatype scalar = Finite real | NaN

record vector =
  len :: nat
  elem :: "nat \<Rightarrow> real"

record matrix =
  nrows :: nat
  ncols :: nat
  entry :: "nat \<Rightarrow> nat \<Rightarrow> real"

definition broadcastable :: "nat \<Rightarrow> nat \<Rightarrow> bool" where
  "broadcastable m n = (m = n \<or> m = 1 \<or> n = 1)"

definition bc_extent :: "nat \<Rightarrow> nat \<Rightarrow> nat" where
  "bc_extent m n = (if m = 1 then n else m)"

definition broadcast_dim :: "nat \<Rightarrow> nat \<Rightarrow> error + nat" where
  "broadcast_dim m n = (if broadcastable m n then Inr (bc_extent m n) else Inl IncompatibleShapes)"

definition bidx :: "nat \<Rightarrow> nat \<Rightarrow> nat" where
  "bidx n i = (if n = 1 then 0 else i)"

definition row :: "matrix \<Rightarrow> nat \<Rightarrow> vector" where
  "row M i = \<lparr>len = ncols M, elem = entry M i\<rparr>"

text \<open>
  \<open>song * people_preferences\<close>: a vector of shape (F) against a matrix of shape (A, F').
  The vector is promoted to shape (1, F), so only the feature axes have to be compatible.
\<close>

definition mul_vec_mat :: "vector \<Rightarrow> matrix \<Rightarrow> error + matrix" where
  "mul_vec_mat v M =
     (case broadcast_dim (len v) (ncols M) of
        Inl e \<Rightarrow> Inl e
      | Inr k \<Rightarrow> Inr \<lparr>nrows = nrows M, ncols = k,
                 entry = \<lambda>u f. elem v (bidx (len v) f) * entry M u (bidx (ncols M) f)\<rparr>)"

text \<open>\<open>jnp.sum(x, axis = 1)\<close>: one sum per row.\<close>

definition sum_axis1 :: "matrix \<Rightarrow> vector" where
  "sum_axis1 M = \<lparr>len = nrows M, elem = \<lambda>u. \<Sum>f<ncols M. entry M u f\<rparr>"

text \<open>
  \<open>def calc_people_ratings(song, people_preferences):
       return jnp.sum(song * people_preferences, axis = 1)\<close>
\<close>

definition calc_people_ratings :: "vector \<Rightarrow> matrix \<Rightarrow> error + vector" where
  "calc_people_ratings song people_preferences =
     (case mul_vec_mat song people_preferences of
        Inl e \<Rightarrow> Inl e
      | Inr products \<Rightarrow> Inr (sum_axis1 products))"

text \<open>
  \<open>vmap(f, in_axes = (0, None))(M, ...)\<close> maps \<open>f\<close> over the rows of \<open>M\<close> and stacks the
  results. jax traces \<open>f\<close> once on an abstract row, so a shape error of \<open>f\<close> is raised
  whether or not \<open>M\<close> has rows; the model reads the outcome of the trace, and the length
  of the result rows, off the application of \<open>f\<close> to the row at index 0.
\<close>

definition vmap_axis0 :: "(vector \<Rightarrow> error + vector) \<Rightarrow> matrix \<Rightarrow> error + matrix" where
  "vmap_axis0 f M =
     (case f (row M 0) of
        Inl e \<Rightarrow> Inl e
      | Inr v \<Rightarrow> Inr \<lparr>nrows = nrows M, ncols = len v,
                 entry = \<lambda>i. (case f (row M i) of Inl e \<Rightarrow> (\<lambda>u. 0) | Inr w \<Rightarrow> elem w)\<rparr>)"

text \<open>
  \<open>vmap(calc_people_ratings, in_axes=(0,None))(song_data, params)\<close>: the expression that
  produces \<open>song_ratings\<close>, the predictions inside \<open>loss\<close> and the final recommendations.
\<close>

definition vmap_calc_people_ratings :: "matrix \<Rightarrow> matrix \<Rightarrow> error + matrix" where
  "vmap_calc_people_ratings song_data params =
     vmap_axis0 (\<lambda>song. calc_people_ratings song params) song_data"

text \<open>\<open>A - B\<close> on two matrices, with broadcasting on both axes.\<close>

definition sub_bc :: "matrix \<Rightarrow> matrix \<Rightarrow> error + matrix" where
  "sub_bc A B =
     (case broadcast_dim (nrows A) (nrows B) of
        Inl e \<Rightarrow> Inl e
      | Inr r \<Rightarrow>
          (case broadcast_dim (ncols A) (ncols B) of
             Inl e \<Rightarrow> Inl e
           | Inr c \<Rightarrow> Inr \<lparr>nrows = r, ncols = c,
                      entry = \<lambda>i j. entry A (bidx (nrows A) i) (bidx (ncols A) j)
                                    - entry B (bidx (nrows B) i) (bidx (ncols B) j)\<rparr>))"

text \<open>\<open>jnp.abs\<close>, entry by entry.\<close>

definition abs_m :: "matrix \<Rightarrow> matrix" where
  "abs_m M = M\<lparr>entry := \<lambda>i j. \<bar>entry M i j\<bar>\<rparr>"

text \<open>
  \<open>jnp.mean\<close> over all entries: the sum divided by the number of entries. For an array
  without entries this is 0/0, which is NaN (no exception is raised).
\<close>

definition mean :: "matrix \<Rightarrow> scalar" where
  "mean M =
     (if nrows M * ncols M = 0 then NaN
      else Finite ((\<Sum>i<nrows M. \<Sum>j<ncols M. entry M i j) / real (nrows M * ncols M)))"

text \<open>The second line of \<open>loss\<close>: \<open>jnp.mean(jnp.abs(target-pred))\<close>.\<close>

definition mean_abs_diff :: "matrix \<Rightarrow> matrix \<Rightarrow> error + scalar" where
  "mean_abs_diff target pred =
     (case sub_bc target pred of
        Inl e \<Rightarrow> Inl e
      | Inr d \<Rightarrow> Inr (mean (abs_m d)))"

text \<open>
  \<open>def loss(params, target, song_data):
       pred = vmap(calc_people_ratings, in_axes=(0,None))(song_data, params)
       return jnp.mean(jnp.abs(target-pred))\<close>
\<close>

definition loss :: "matrix \<Rightarrow> matrix \<Rightarrow> matrix \<Rightarrow> error + scalar" where
  "loss params target song_data =
     (case vmap_calc_people_ratings song_data params of
        Inl e \<Rightarrow> Inl e
      | Inr pred \<Rightarrow> mean_abs_diff target pred)"

section \<open>The gradient of the loss\<close>

text \<open>
  \<open>grad(loss)(params, target, song_data)\<close> is the derivative of \<open>loss\<close> in its first
  argument, computed by jax in reverse mode: the forward pass is run (and raises whatever
  it raises), then the cotangent 1 of the result is carried back through the operations
  of \<open>loss\<close> in reverse order, each with its own rule:
  \<^item> mean over n entries: every entry receives ct / n;
  \<^item> abs of a real number x: ct where x \<ge> 0 and -ct where x < 0 (the rule jax registers
    for \<open>abs\<close>, \<open>select(x >= 0, g, -g)\<close>), so that the derivative at 0 is taken as +1;
  \<^item> \<open>target - pred\<close>, in \<open>pred\<close>: the negated cotangent, summed over every axis along
    which \<open>pred\<close> was broadcast;
  \<^item> sum over axis 1: the cotangent of a row sum goes to every summand;
  \<^item> \<open>song * people_preferences\<close>, in \<open>people_preferences\<close>: ct * song, summed over
    an axis along which \<open>people_preferences\<close> was broadcast;
  \<^item> vmap with \<open>in_axes = None\<close> for the parameters: the cotangents of all songs add up.
\<close>

definition unbroadcast :: "nat \<Rightarrow> nat \<Rightarrow> (nat \<Rightarrow> real) \<Rightarrow> nat \<Rightarrow> real" where
  \<comment> \<open>an axis of extent n that took part in a result of extent b\<close>
  "unbroadcast n b g i = (if n = b then g i else (\<Sum>k<b. g k))"

definition vjp_mean :: "matrix \<Rightarrow> matrix" where
  "vjp_mean a = a\<lparr>entry := \<lambda>i j. 1 / real (nrows a * ncols a)\<rparr>"

definition vjp_abs :: "matrix \<Rightarrow> matrix \<Rightarrow> matrix" where
  \<comment> \<open>\<open>select(x >= 0, g, -g)\<close>\<close>
  "vjp_abs d ct = ct\<lparr>entry := \<lambda>i j. if 0 \<le> entry d i j then entry ct i j else - entry ct i j\<rparr>"

definition vjp_sub_rhs :: "matrix \<Rightarrow> matrix \<Rightarrow> matrix" where
  "vjp_sub_rhs B ct =
     \<lparr>nrows = nrows B, ncols = ncols B,
      entry = \<lambda>i j. - unbroadcast (nrows B) (nrows ct)
                        (\<lambda>i'. unbroadcast (ncols B) (ncols ct) (\<lambda>j'. entry ct i' j') j) i\<rparr>"

definition vjp_calc_people_ratings :: "vector \<Rightarrow> matrix \<Rightarrow> vector \<Rightarrow> matrix" where
  "vjp_calc_people_ratings song P ct =
     \<lparr>nrows = nrows P, ncols = ncols P,
      entry = \<lambda>u. unbroadcast (ncols P) (bc_extent (len song) (ncols P))
                     (\<lambda>f. elem ct u * elem song (bidx (len song) f))\<rparr>"

definition vjp_vmap_calc_people_ratings :: "matrix \<Rightarrow> matrix \<Rightarrow> matrix \<Rightarrow> matrix" where
  "vjp_vmap_calc_people_ratings song_data P ct =
     \<lparr>nrows = nrows P, ncols = ncols P,
      entry = \<lambda>u f. \<Sum>i<nrows song_data.
                entry (vjp_calc_people_ratings (row song_data i) P (row ct i)) u f\<rparr>"

definition grad_loss :: "matrix \<Rightarrow> matrix \<Rightarrow> matrix \<Rightarrow> error + matrix" where
  "grad_loss params target song_data =
     (case vmap_calc_people_ratings song_data params of
        Inl e \<Rightarrow> Inl e
      | Inr pred \<Rightarrow>
          (case sub_bc target pred of
             Inl e \<Rightarrow> Inl e
           | Inr d \<Rightarrow>
               Inr (vjp_vmap_calc_people_ratings song_data params
                      (vjp_sub_rhs pred (vjp_abs d (vjp_mean (abs_m d)))))))"

section \<open>The two optimisation loops\<close>

text \<open>\<open>gradient_loss * learning_rate\<close>: an array times a number.\<close>

definition scale :: "matrix \<Rightarrow> real \<Rightarrow> matrix" where
  "scale M c = M\<lparr>entry := \<lambda>i j. entry M i j * c\<rparr>"

text \<open>\<open>song_features[0:new_ratings, :]\<close>: the first rows, as many as there are.\<close>

definition slice_rows :: "matrix \<Rightarrow> nat \<Rightarrow> matrix" where
  "slice_rows M r = M\<lparr>nrows := min r (nrows M)\<rparr>"

definition numrounds :: nat where
  "numrounds = 600"

definition learning_rate :: real where
  "learning_rate = 2 / 10"

definition new_ratings :: nat where
  "new_ratings = 3"

text \<open>
  The state of a loop: the parameter array that the loop reassigns, and the lines printed
  so far. \<open>rounds\<close> is an auxiliary counter, not a variable of the notebook: it counts the
  completed executions of the loop body.
\<close>

datatype output_line = IterationLoss nat scalar | FinalLoss scalar

record run_state =
  cur_params :: matrix
  printed :: "output_line list"
  rounds :: nat

text \<open>\<open>for i in range(n): body\<close>, from index \<open>i\<close> on; an exception in the body ends the loop.\<close>

function for_range :: "nat \<Rightarrow> nat \<Rightarrow> (nat \<Rightarrow> 's \<Rightarrow> error + 's) \<Rightarrow> 's \<Rightarrow> error + 's" where
  "for_range i n body s =
     (if i < n
      then (case body i s of Inl e \<Rightarrow> Inl e | Inr s' \<Rightarrow> for_range (Suc i) n body s')
      else Inr s)"
  by pat_completeness auto
termination
  by (relation "measure (\<lambda>(i, n, body, s). n - i)") auto

declare for_range.simps [simp del]

text \<open>
  The body of the training loop:
  \<open>current_loss = loss(people_params, target=song_ratings, song_data=song_features)
    gradient_loss = grad(loss)(people_params, song_ratings, song_features)
    people_params = people_params - gradient_loss * learning_rate
    if i % 50 == 0:
        print('iteration',i,'loss:', current_loss)\<close>
\<close>

definition train_step :: "real \<Rightarrow> matrix \<Rightarrow> matrix \<Rightarrow> nat \<Rightarrow> run_state \<Rightarrow> error + run_state" where
  "train_step lr target song_data i s =
     (case loss (cur_params s) target song_data of
        Inl e \<Rightarrow> Inl e
      | Inr current_loss \<Rightarrow>
     (case grad_loss (cur_params s) target song_data of
        Inl e \<Rightarrow> Inl e
      | Inr gradient_loss \<Rightarrow>
     (case sub_bc (cur_params s) (scale gradient_loss lr) of
        Inl e \<Rightarrow> Inl e
      | Inr people_params \<Rightarrow>
          Inr \<lparr>cur_params = people_params,
               printed = (if i mod 50 = 0 then printed s @ [IterationLoss i current_loss]
                          else printed s),
               rounds = Suc (rounds s)\<rparr>)))"

definition training_loop :: "nat \<Rightarrow> real \<Rightarrow> matrix \<Rightarrow> matrix \<Rightarrow> matrix \<Rightarrow> error + run_state" where
  "training_loop n lr people_params song_ratings song_features =
     for_range 0 n (train_step lr song_ratings song_features)
       \<lparr>cur_params = people_params, printed = [], rounds = 0\<rparr>"

text \<open>The cell as a whole: the loop, then \<open>print('final loss:', loss(...))\<close>.\<close>

definition training_cell :: "nat \<Rightarrow> real \<Rightarrow> matrix \<Rightarrow> matrix \<Rightarrow> matrix \<Rightarrow> error + run_state" where
  "training_cell n lr people_params song_ratings song_features =
     (case training_loop n lr people_params song_ratings song_features of
        Inl e \<Rightarrow> Inl e
      | Inr s \<Rightarrow>
          (case loss (cur_params s) song_ratings song_features of
             Inl e \<Rightarrow> Inl e
           | Inr l \<Rightarrow> Inr (s\<lparr>printed := printed s @ [FinalLoss l]\<rparr>)))"

text \<open>
  The body of the loop that fits the parameters of the new members:
  \<open>current_loss = loss(new_member_params, target=new_member_ratings, song_data = song_features[0:new_ratings, :])
    gradient_loss = grad(loss)(new_member_params, new_member_ratings, song_data = song_features[0:new_ratings, :])
    new_member_params = new_member_params - gradient_loss*learning_rate
    if i % 50 == 0:
        current_loss = loss(new_member_params, target=new_member_ratings, song_data = song_features[0:new_ratings, :])
        gradient_loss = grad(loss)(new_member_params, new_member_ratings, song_data = song_features[0:new_ratings, :])
        new_member_params = new_member_params - gradient_loss * learning_rate
        print(i,current_loss)\<close>
\<close>

definition personalize_step ::
    "real \<Rightarrow> nat \<Rightarrow> matrix \<Rightarrow> matrix \<Rightarrow> nat \<Rightarrow> run_state \<Rightarrow> error + run_state" where
  "personalize_step lr r target song_features i s =
     (case loss (cur_params s) target (slice_rows song_features r) of
        Inl e \<Rightarrow> Inl e
      | Inr current_loss \<Rightarrow>
     (case grad_loss (cur_params s) target (slice_rows song_features r) of
        Inl e \<Rightarrow> Inl e
      | Inr gradient_loss \<Rightarrow>
     (case sub_bc (cur_params s) (scale gradient_loss lr) of
        Inl e \<Rightarrow> Inl e
      | Inr new_member_params \<Rightarrow>
          if i mod 50 = 0
          then
            (case loss new_member_params target (slice_rows song_features r) of
               Inl e \<Rightarrow> Inl e
             | Inr current_loss' \<Rightarrow>
            (case grad_loss new_member_params target (slice_rows song_features r) of
               Inl e \<Rightarrow> Inl e
             | Inr gradient_loss' \<Rightarrow>
            (case sub_bc new_member_params (scale gradient_loss' lr) of
               Inl e \<Rightarrow> Inl e
             | Inr new_member_params' \<Rightarrow>
                 Inr \<lparr>cur_params = new_member_params',
                      printed = printed s @ [IterationLoss i current_loss'],
                      rounds = Suc (rounds s)\<rparr>)))
          else Inr \<lparr>cur_params = new_member_params, printed = printed s,
                    rounds = Suc (rounds s)\<rparr>)))"

definition personalization_loop ::
    "nat \<Rightarrow> real \<Rightarrow> nat \<Rightarrow> matrix \<Rightarrow> matrix \<Rightarrow> matrix \<Rightarrow> error + run_state" where
  "personalization_loop n lr r new_member_params new_member_ratings song_features =
     for_range 0 n (personalize_step lr r new_member_ratings song_features)
       \<lparr>cur_params = new_member_params, printed = [], rounds = 0\<rparr>"

section \<open>The specification's formulas\<close>

text \<open>
  The definitions of this section are written from the words of the specification, to be
  compared with the functions of the notebook above.
\<close>

definition dot :: "vector \<Rightarrow> vector \<Rightarrow> real" where
  \<comment> \<open>elementwise product summed over F\<close>
  "dot f p = (\<Sum>k<len f. elem f k * elem p k)"

definition transpose_m :: "matrix \<Rightarrow> matrix" where
  "transpose_m M = \<lparr>nrows = ncols M, ncols = nrows M, entry = \<lambda>i j. entry M j i\<rparr>"

definition matmul :: "matrix \<Rightarrow> matrix \<Rightarrow> matrix" where
  "matmul A B =
     \<lparr>nrows = nrows A, ncols = ncols B, entry = \<lambda>i j. \<Sum>k<ncols A. entry A i k * entry B k j\<rparr>"

definition residual_sign :: "matrix \<Rightarrow> matrix \<Rightarrow> matrix \<Rightarrow> nat \<Rightarrow> nat \<Rightarrow> real" where
  \<comment> \<open>s(i,u) = sign(predicted(i,u) - target(i,u)), with sign(0) = 0\<close>
  "residual_sign params target song_data i u =
     (let r = dot (row song_data i) (row params u) - entry target i u
      in if r = 0 then 0 else if 0 < r then 1 else - 1)"

definition subgradient :: "matrix \<Rightarrow> matrix \<Rightarrow> matrix \<Rightarrow> nat \<Rightarrow> nat \<Rightarrow> real" where
  \<comment> \<open>gradient[u] = (1/(Item-count * Agent-count)) * sum over i of s(i,u) * itemFeatures[i]\<close>
  "subgradient params target song_data u f =
     (1 / real (nrows song_data * nrows params))
       * (\<Sum>i<nrows song_data. residual_sign params target song_data i u * entry song_data i f)"

text \<open>
  The same formula with the sign that the code takes at a residual of exactly zero: there
  \<open>target - predicted\<close> is 0, its absolute value is differentiated as +1, and the sign
  of the residual \<open>predicted - target\<close> comes out as -1.
\<close>

definition code_residual_sign :: "matrix \<Rightarrow> matrix \<Rightarrow> matrix \<Rightarrow> nat \<Rightarrow> nat \<Rightarrow> real" where
  \<comment> \<open>s(i,u) = 1 where predicted(i,u) > target(i,u), and -1 elsewhere\<close>
  "code_residual_sign params target song_data i u =
     (if entry target i u < dot (row song_data i) (row params u) then 1 else - 1)"

definition code_subgradient :: "matrix \<Rightarrow> matrix \<Rightarrow> matrix \<Rightarrow> nat \<Rightarrow> nat \<Rightarrow> real" where
  "code_subgradient params target song_data u f =
     (1 / real (nrows song_data * nrows params))
       * (\<Sum>i<nrows song_data.
            code_residual_sign params target song_data i u * entry song_data i f)"

definition mean_absolute_error :: "matrix \<Rightarrow> matrix \<Rightarrow> scalar" where
  \<comment> \<open>the mean of the absolute elementwise difference across all Item x Agent entries\<close>
  "mean_absolute_error predicted target =
     (if nrows target = 0 \<or> ncols target = 0 then NaN
      else Finite ((\<Sum>i<nrows target. \<Sum>u<ncols target. \<bar>entry predicted i u - entry target i u\<bar>)
                    / real (nrows target * ncols target)))"

section \<open>Closed forms of the operations\<close>

text \<open>
  The definitions of this section are not functions of the notebook. They name what the
  operations above return when they do not fail, so that the lemmas below can state it:
  the condition under which the forward pass raises no shape error, the arrays it builds,
  the gradient, and one update of the parameters.
\<close>

definition shapes_ok :: "matrix \<Rightarrow> matrix \<Rightarrow> matrix \<Rightarrow> bool" where
  "shapes_ok params target song_data =
     (broadcastable (ncols song_data) (ncols params)
      \<and> broadcastable (nrows target) (nrows song_data)
      \<and> broadcastable (ncols target) (nrows params))"

definition pred_m :: "matrix \<Rightarrow> matrix \<Rightarrow> matrix" where
  "pred_m D P =
     \<lparr>nrows = nrows D, ncols = nrows P,
      entry = \<lambda>i u. \<Sum>f<bc_extent (ncols D) (ncols P).
                entry D i (bidx (ncols D) f) * entry P u (bidx (ncols P) f)\<rparr>"

definition diff_m :: "matrix \<Rightarrow> matrix \<Rightarrow> matrix" where
  "diff_m A B =
     \<lparr>nrows = bc_extent (nrows A) (nrows B), ncols = bc_extent (ncols A) (ncols B),
      entry = \<lambda>i j. entry A (bidx (nrows A) i) (bidx (ncols A) j)
                    - entry B (bidx (nrows B) i) (bidx (ncols B) j)\<rparr>"

definition loss_m :: "matrix \<Rightarrow> matrix \<Rightarrow> matrix \<Rightarrow> scalar" where
  "loss_m P T D = mean (abs_m (diff_m T (pred_m D P)))"

definition grad_m :: "matrix \<Rightarrow> matrix \<Rightarrow> matrix \<Rightarrow> matrix" where
  "grad_m P T D =
     vjp_vmap_calc_people_ratings D P
       (vjp_sub_rhs (pred_m D P)
          (vjp_abs (diff_m T (pred_m D P)) (vjp_mean (abs_m (diff_m T (pred_m D P))))))"

definition descend :: "real \<Rightarrow> matrix \<Rightarrow> matrix \<Rightarrow> matrix \<Rightarrow> matrix" where
  \<comment> \<open>\<open>params - gradient_loss * learning_rate\<close>\<close>
  "descend lr T D P = diff_m P (scale (grad_m P T D) lr)"

definition reports :: "real \<Rightarrow> matrix \<Rightarrow> matrix \<Rightarrow> matrix \<Rightarrow> nat \<Rightarrow> nat \<Rightarrow> output_line list" where
  \<comment> \<open>the lines that the training loop prints in the rounds \<open>i\<close> to \<open>n - 1\<close>\<close>
  "reports lr T D P i n =
     map (\<lambda>j. IterationLoss j (loss_m ((descend lr T D ^^ (j - i)) P) T D))
       (filter (\<lambda>j. j mod 50 = 0) [i..<n])"

primrec personalized :: "real \<Rightarrow> matrix \<Rightarrow> matrix \<Rightarrow> nat \<Rightarrow> matrix \<Rightarrow> matrix" where
  \<comment> \<open>the parameters of the new members after \<open>n\<close> rounds of their loop\<close>
  "personalized lr T D 0 P = P"
| "personalized lr T D (Suc n) P =
     (if n mod 50 = 0
      then descend lr T D (descend lr T D (personalized lr T D n P))
      else descend lr T D (personalized lr T D n P))"

text \<open>
  For the derivative of the loss in one parameter: the parameter matrix with the entry
  \<open>(u, f)\<close> replaced, and the number that a finite loss carries.
\<close>

definition set_entry :: "matrix \<Rightarrow> nat \<Rightarrow> nat \<Rightarrow> real \<Rightarrow> matrix" where
  "set_entry P u f t = P\<lparr>entry := \<lambda>v k. if v = u \<and> k = f then t else entry P v k\<rparr>"

definition finite_value :: "scalar \<Rightarrow> real" where
  "finite_value x = (case x of Finite r \<Rightarrow> r | NaN \<Rightarrow> 0)"

section \<open>Example arrays\<close>

text \<open>\<open>jnp.array(rows)\<close> with its shape written out, for the concrete instances below.\<close>

definition array2 :: "nat \<Rightarrow> nat \<Rightarrow> real list list \<Rightarrow> matrix" where
  "array2 r c rows = \<lparr>nrows = r, ncols = c, entry = \<lambda>i j. rows ! i ! j\<rparr>"

text \<open>
  Two songs with two features, two people, and the ratings of both songs by both people.
  The predicted ratings are 1, 0 (first song) and 3, 1 (second song).
\<close>

definition ex_features :: matrix where
  "ex_features = array2 2 2 [[1, 0], [1, 1]]"

definition ex_params :: matrix where
  "ex_params = array2 2 2 [[1, 2], [0, 1]]"

definition ex_ratings :: matrix where
  "ex_ratings = array2 2 2 [[0, 0], [5, 0]]"

text \<open>The same run with another second person: other parameters, other ratings.\<close>

definition ex_params' :: matrix where
  "ex_params' = array2 2 2 [[1, 2], [7, 7]]"

definition ex_ratings' :: matrix where
  "ex_ratings' = array2 2 2 [[0, 9], [5, 9]]"

text \<open>One song with one feature, one person.\<close>

definition one_by_one :: "real \<Rightarrow> matrix" where
  "one_by_one x = array2 1 1 [[x]]"

section \<open>The same computation in machine arithmetic\<close>

text \<open>
  The sections above compute in exact real numbers. The arrays of the notebook hold 32-bit
  floating-point numbers, which include the non-finite values: the two infinities and NaN.
  This section writes the same functions once more over such values, so that a run in
  which a non-finite value arises can be followed.

  A value is a real number, plus or minus infinity, or NaN. The operations on two values
  follow IEEE 754: NaN propagates; infinity minus infinity and zero times infinity are
  NaN; a non-zero number divided by zero is an infinity and zero divided by zero is NaN;
  a comparison with NaN is false. The sign of a zero is not modelled.

  Machine arithmetic rounds the exact result of every addition, multiplication and
  division (negation and absolute value are exact). The rounding function, which also
  sends a result beyond the largest representable number to an infinity, is a parameter
  \<open>rnd\<close> of every function of this section; nothing below depends on what it is.
\<close>

datatype fval = Num real | PosInf | NegInf | NotANumber

fun fneg :: "fval \<Rightarrow> fval" where
  "fneg (Num a) = Num (- a)"
| "fneg PosInf = NegInf"
| "fneg NegInf = PosInf"
| "fneg NotANumber = NotANumber"

fun fabs :: "fval \<Rightarrow> fval" where
  "fabs (Num a) = Num \<bar>a\<bar>"
| "fabs PosInf = PosInf"
| "fabs NegInf = PosInf"
| "fabs NotANumber = NotANumber"

fun fge0 :: "fval \<Rightarrow> bool" where
  \<comment> \<open>\<open>x >= 0\<close>\<close>
  "fge0 (Num a) = (0 \<le> a)"
| "fge0 PosInf = True"
| "fge0 NegInf = False"
| "fge0 NotANumber = False"

fun fadd :: "fval \<Rightarrow> fval \<Rightarrow> fval" where
  "fadd NotANumber y = NotANumber"
| "fadd x NotANumber = NotANumber"
| "fadd (Num a) (Num b) = Num (a + b)"
| "fadd PosInf NegInf = NotANumber"
| "fadd NegInf PosInf = NotANumber"
| "fadd PosInf y = PosInf"
| "fadd x PosInf = PosInf"
| "fadd NegInf y = NegInf"
| "fadd x NegInf = NegInf"

fun fmul :: "fval \<Rightarrow> fval \<Rightarrow> fval" where
  "fmul NotANumber y = NotANumber"
| "fmul x NotANumber = NotANumber"
| "fmul (Num a) (Num b) = Num (a * b)"
| "fmul (Num a) PosInf = (if a = 0 then NotANumber else if 0 < a then PosInf else NegInf)"
| "fmul (Num a) NegInf = (if a = 0 then NotANumber else if 0 < a then NegInf else PosInf)"
| "fmul PosInf (Num b) = (if b = 0 then NotANumber else if 0 < b then PosInf else NegInf)"
| "fmul NegInf (Num b) = (if b = 0 then NotANumber else if 0 < b then NegInf else PosInf)"
| "fmul PosInf PosInf = PosInf"
| "fmul PosInf NegInf = NegInf"
| "fmul NegInf PosInf = NegInf"
| "fmul NegInf NegInf = PosInf"

fun fdiv :: "fval \<Rightarrow> fval \<Rightarrow> fval" where
  "fdiv NotANumber y = NotANumber"
| "fdiv x NotANumber = NotANumber"
| "fdiv (Num a) (Num b) =
     (if b = 0 then (if a = 0 then NotANumber else if 0 < a then PosInf else NegInf)
      else Num (a / b))"
| "fdiv (Num a) PosInf = Num 0"
| "fdiv (Num a) NegInf = Num 0"
| "fdiv PosInf (Num b) = (if 0 \<le> b then PosInf else NegInf)"
| "fdiv NegInf (Num b) = (if 0 \<le> b then NegInf else PosInf)"
| "fdiv PosInf PosInf = NotANumber"
| "fdiv PosInf NegInf = NotANumber"
| "fdiv NegInf PosInf = NotANumber"
| "fdiv NegInf NegInf = NotANumber"

text \<open>The sum of \<open>g 0\<close>, ..., \<open>g (n - 1)\<close>, each addition rounded.\<close>

primrec fsum :: "(fval \<Rightarrow> fval) \<Rightarrow> (nat \<Rightarrow> fval) \<Rightarrow> nat \<Rightarrow> fval" where
  "fsum rnd g 0 = Num 0"
| "fsum rnd g (Suc n) = rnd (fadd (fsum rnd g n) (g n))"

record fvector =
  flen :: nat
  felem :: "nat \<Rightarrow> fval"

record fmatrix =
  frows :: nat
  fcols :: nat
  fentry :: "nat \<Rightarrow> nat \<Rightarrow> fval"

definition frow :: "fmatrix \<Rightarrow> nat \<Rightarrow> fvector" where
  "frow M i = \<lparr>flen = fcols M, felem = fentry M i\<rparr>"

text \<open>\<open>song * people_preferences\<close>\<close>

definition fmul_vec_mat :: "(fval \<Rightarrow> fval) \<Rightarrow> fvector \<Rightarrow> fmatrix \<Rightarrow> error + fmatrix" where
  "fmul_vec_mat rnd v M =
     (case broadcast_dim (flen v) (fcols M) of
        Inl e \<Rightarrow> Inl e
      | Inr k \<Rightarrow> Inr \<lparr>frows = frows M, fcols = k,
                 fentry = \<lambda>u f. rnd (fmul (felem v (bidx (flen v) f))
                                          (fentry M u (bidx (fcols M) f)))\<rparr>)"

text \<open>\<open>jnp.sum(x, axis = 1)\<close>\<close>

definition fsum_axis1 :: "(fval \<Rightarrow> fval) \<Rightarrow> fmatrix \<Rightarrow> fvector" where
  "fsum_axis1 rnd M = \<lparr>flen = frows M, felem = \<lambda>u. fsum rnd (fentry M u) (fcols M)\<rparr>"

text \<open>\<open>calc_people_ratings(song, people_preferences)\<close>\<close>

definition fcalc_people_ratings ::
    "(fval \<Rightarrow> fval) \<Rightarrow> fvector \<Rightarrow> fmatrix \<Rightarrow> error + fvector" where
  "fcalc_people_ratings rnd song people_preferences =
     (case fmul_vec_mat rnd song people_preferences of
        Inl e \<Rightarrow> Inl e
      | Inr products \<Rightarrow> Inr (fsum_axis1 rnd products))"

text \<open>\<open>vmap(f, in_axes = (0, None))\<close>, read as \<open>vmap_axis0\<close> above.\<close>

definition fvmap_axis0 :: "(fvector \<Rightarrow> error + fvector) \<Rightarrow> fmatrix \<Rightarrow> error + fmatrix" where
  "fvmap_axis0 f M =
     (case f (frow M 0) of
        Inl e \<Rightarrow> Inl e
      | Inr v \<Rightarrow> Inr \<lparr>frows = frows M, fcols = flen v,
                 fentry = \<lambda>i. (case f (frow M i) of Inl e \<Rightarrow> (\<lambda>u. Num 0) | Inr w \<Rightarrow> felem w)\<rparr>)"

definition fvmap_calc_people_ratings ::
    "(fval \<Rightarrow> fval) \<Rightarrow> fmatrix \<Rightarrow> fmatrix \<Rightarrow> error + fmatrix" where
  "fvmap_calc_people_ratings rnd song_data params =
     fvmap_axis0 (\<lambda>song. fcalc_people_ratings rnd song params) song_data"

text \<open>\<open>A - B\<close> with broadcasting; a difference is the sum with the negated operand.\<close>

definition fsub_bc :: "(fval \<Rightarrow> fval) \<Rightarrow> fmatrix \<Rightarrow> fmatrix \<Rightarrow> error + fmatrix" where
  "fsub_bc rnd A B =
     (case broadcast_dim (frows A) (frows B) of
        Inl e \<Rightarrow> Inl e
      | Inr r \<Rightarrow>
          (case broadcast_dim (fcols A) (fcols B) of
             Inl e \<Rightarrow> Inl e
           | Inr c \<Rightarrow> Inr \<lparr>frows = r, fcols = c,
                      fentry = \<lambda>i j. rnd (fadd (fentry A (bidx (frows A) i) (bidx (fcols A) j))
                                         (fneg (fentry B (bidx (frows B) i) (bidx (fcols B) j))))\<rparr>))"

definition fabs_m :: "fmatrix \<Rightarrow> fmatrix" where
  "fabs_m M = M\<lparr>fentry := \<lambda>i j. fabs (fentry M i j)\<rparr>"

text \<open>
  \<open>jnp.mean\<close>: the sum of all entries divided by their number, which is converted to a
  floating-point number first. Without entries this is 0/0.
\<close>

definition fcount :: "(fval \<Rightarrow> fval) \<Rightarrow> fmatrix \<Rightarrow> fval" where
  "fcount rnd M = rnd (Num (real (frows M * fcols M)))"

definition fmean :: "(fval \<Rightarrow> fval) \<Rightarrow> fmatrix \<Rightarrow> fval" where
  "fmean rnd M =
     rnd (fdiv (fsum rnd (\<lambda>i. fsum rnd (fentry M i) (fcols M)) (frows M)) (fcount rnd M))"

text \<open>\<open>loss(params, target, song_data)\<close>\<close>

definition floss :: "(fval \<Rightarrow> fval) \<Rightarrow> fmatrix \<Rightarrow> fmatrix \<Rightarrow> fmatrix \<Rightarrow> error + fval" where
  "floss rnd params target song_data =
     (case fvmap_calc_people_ratings rnd song_data params of
        Inl e \<Rightarrow> Inl e
      | Inr pred \<Rightarrow>
          (case fsub_bc rnd target pred of
             Inl e \<Rightarrow> Inl e
           | Inr d \<Rightarrow> Inr (fmean rnd (fabs_m d))))"

text \<open>\<open>grad(loss)\<close>, by the rules of the section on the gradient.\<close>

definition funbroadcast :: "(fval \<Rightarrow> fval) \<Rightarrow> nat \<Rightarrow> nat \<Rightarrow> (nat \<Rightarrow> fval) \<Rightarrow> nat \<Rightarrow> fval" where
  "funbroadcast rnd n b g i = (if n = b then g i else fsum rnd g b)"

definition fvjp_mean :: "(fval \<Rightarrow> fval) \<Rightarrow> fmatrix \<Rightarrow> fmatrix" where
  "fvjp_mean rnd a = a\<lparr>fentry := \<lambda>i j. rnd (fdiv (Num 1) (fcount rnd a))\<rparr>"

definition fvjp_abs :: "fmatrix \<Rightarrow> fmatrix \<Rightarrow> fmatrix" where
  \<comment> \<open>\<open>select(x >= 0, g, -g)\<close>\<close>
  "fvjp_abs d ct =
     ct\<lparr>fentry := \<lambda>i j. if fge0 (fentry d i j) then fentry ct i j else fneg (fentry ct i j)\<rparr>"

definition fvjp_sub_rhs :: "(fval \<Rightarrow> fval) \<Rightarrow> fmatrix \<Rightarrow> fmatrix \<Rightarrow> fmatrix" where
  "fvjp_sub_rhs rnd B ct =
     \<lparr>frows = frows B, fcols = fcols B,
      fentry = \<lambda>i j. fneg (funbroadcast rnd (frows B) (frows ct)
                        (\<lambda>i'. funbroadcast rnd (fcols B) (fcols ct) (\<lambda>j'. fentry ct i' j') j) i)\<rparr>"

definition fvjp_calc_people_ratings ::
    "(fval \<Rightarrow> fval) \<Rightarrow> fvector \<Rightarrow> fmatrix \<Rightarrow> fvector \<Rightarrow> fmatrix" where
  "fvjp_calc_people_ratings rnd song P ct =
     \<lparr>frows = frows P, fcols = fcols P,
      fentry = \<lambda>u. funbroadcast rnd (fcols P) (bc_extent (flen song) (fcols P))
                     (\<lambda>f. rnd (fmul (felem ct u) (felem song (bidx (flen song) f))))\<rparr>"

definition fvjp_vmap_calc_people_ratings ::
    "(fval \<Rightarrow> fval) \<Rightarrow> fmatrix \<Rightarrow> fmatrix \<Rightarrow> fmatrix \<Rightarrow> fmatrix" where
  "fvjp_vmap_calc_people_ratings rnd song_data P ct =
     \<lparr>frows = frows P, fcols = fcols P,
      fentry = \<lambda>u f. fsum rnd
                (\<lambda>i. fentry (fvjp_calc_people_ratings rnd (frow song_data i) P (frow ct i)) u f)
                (frows song_data)\<rparr>"

definition fgrad_loss ::
    "(fval \<Rightarrow> fval) \<Rightarrow> fmatrix \<Rightarrow> fmatrix \<Rightarrow> fmatrix \<Rightarrow> error + fmatrix" where
  "fgrad_loss rnd params target song_data =
     (case fvmap_calc_people_ratings rnd song_data params of
        Inl e \<Rightarrow> Inl e
      | Inr pred \<Rightarrow>
          (case fsub_bc rnd target pred of
             Inl e \<Rightarrow> Inl e
           | Inr d \<Rightarrow>
               Inr (fvjp_vmap_calc_people_ratings rnd song_data params
                      (fvjp_sub_rhs rnd pred (fvjp_abs d (fvjp_mean rnd (fabs_m d)))))))"

text \<open>\<open>gradient_loss * learning_rate\<close> and \<open>song_features[0:new_ratings, :]\<close>\<close>

definition fscale :: "(fval \<Rightarrow> fval) \<Rightarrow> fmatrix \<Rightarrow> fval \<Rightarrow> fmatrix" where
  "fscale rnd M c = M\<lparr>fentry := \<lambda>i j. rnd (fmul (fentry M i j) c)\<rparr>"

definition fslice_rows :: "fmatrix \<Rightarrow> nat \<Rightarrow> fmatrix" where
  "fslice_rows M r = M\<lparr>frows := min r (frows M)\<rparr>"

datatype foutput_line = FIterationLoss nat fval | FFinalLoss fval

record frun_state =
  fcur_params :: fmatrix
  fprinted :: "foutput_line list"
  frounds :: nat

text \<open>The body of the training loop, and the loop.\<close>

definition ftrain_step ::
    "(fval \<Rightarrow> fval) \<Rightarrow> fval \<Rightarrow> fmatrix \<Rightarrow> fmatrix \<Rightarrow> nat \<Rightarrow> frun_state \<Rightarrow> error + frun_state" where
  "ftrain_step rnd lr target song_data i s =
     (case floss rnd (fcur_params s) target song_data of
        Inl e \<Rightarrow> Inl e
      | Inr current_loss \<Rightarrow>
     (case fgrad_loss rnd (fcur_params s) target song_data of
        Inl e \<Rightarrow> Inl e
      | Inr gradient_loss \<Rightarrow>
     (case fsub_bc rnd (fcur_params s) (fscale rnd gradient_loss lr) of
        Inl e \<Rightarrow> Inl e
      | Inr people_params \<Rightarrow>
          Inr \<lparr>fcur_params = people_params,
               fprinted = (if i mod 50 = 0 then fprinted s @ [FIterationLoss i current_loss]
                           else fprinted s),
               frounds = Suc (frounds s)\<rparr>)))"

definition ftraining_loop ::
    "(fval \<Rightarrow> fval) \<Rightarrow> nat \<Rightarrow> fval \<Rightarrow> fmatrix \<Rightarrow> fmatrix \<Rightarrow> fmatrix \<Rightarrow> error + frun_state" where
  "ftraining_loop rnd n lr people_params song_ratings song_features =
     for_range 0 n (ftrain_step rnd lr song_ratings song_features)
       \<lparr>fcur_params = people_params, fprinted = [], frounds = 0\<rparr>"

text \<open>The cell as a whole: the loop, then \<open>print('final loss:', loss(...))\<close>.\<close>

definition ftraining_cell ::
    "(fval \<Rightarrow> fval) \<Rightarrow> nat \<Rightarrow> fval \<Rightarrow> fmatrix \<Rightarrow> fmatrix \<Rightarrow> fmatrix \<Rightarrow> error + frun_state" where
  "ftraining_cell rnd n lr people_params song_ratings song_features =
     (case ftraining_loop rnd n lr people_params song_ratings song_features of
        Inl e \<Rightarrow> Inl e
      | Inr s \<Rightarrow>
          (case floss rnd (fcur_params s) song_ratings song_features of
             Inl e \<Rightarrow> Inl e
           | Inr l \<Rightarrow> Inr (s\<lparr>fprinted := fprinted s @ [FFinalLoss l]\<rparr>)))"

text \<open>The body of the loop that fits the new members, and the loop.\<close>

definition fpersonalize_step ::
    "(fval \<Rightarrow> fval) \<Rightarrow> fval \<Rightarrow> nat \<Rightarrow> fmatrix \<Rightarrow> fmatrix \<Rightarrow> nat \<Rightarrow> frun_state
      \<Rightarrow> error + frun_state" where
  "fpersonalize_step rnd lr r target song_features i s =
     (case floss rnd (fcur_params s) target (fslice_rows song_features r) of
        Inl e \<Rightarrow> Inl e
      | Inr current_loss \<Rightarrow>
     (case fgrad_loss rnd (fcur_params s) target (fslice_rows song_features r) of
        Inl e \<Rightarrow> Inl e
      | Inr gradient_loss \<Rightarrow>
     (case fsub_bc rnd (fcur_params s) (fscale rnd gradient_loss lr) of
        Inl e \<Rightarrow> Inl e
      | Inr new_member_params \<Rightarrow>
          if i mod 50 = 0
          then
            (case floss rnd new_member_params target (fslice_rows song_features r) of
               Inl e \<Rightarrow> Inl e
             | Inr current_loss' \<Rightarrow>
            (case fgrad_loss rnd new_member_params target (fslice_rows song_features r) of
               Inl e \<Rightarrow> Inl e
             | Inr gradient_loss' \<Rightarrow>
            (case fsub_bc rnd new_member_params (fscale rnd gradient_loss' lr) of
               Inl e \<Rightarrow> Inl e
             | Inr new_member_params' \<Rightarrow>
                 Inr \<lparr>fcur_params = new_member_params',
                      fprinted = fprinted s @ [FIterationLoss i current_loss'],
                      frounds = Suc (frounds s)\<rparr>)))
          else Inr \<lparr>fcur_params = new_member_params, fprinted = fprinted s,
                    frounds = Suc (frounds s)\<rparr>)))"

definition fpersonalization_loop ::
    "(fval \<Rightarrow> fval) \<Rightarrow> nat \<Rightarrow> fval \<Rightarrow> nat \<Rightarrow> fmatrix \<Rightarrow> fmatrix \<Rightarrow> fmatrix
      \<Rightarrow> error + frun_state" where
  "fpersonalization_loop rnd n lr r new_member_params new_member_ratings song_features =
     for_range 0 n (fpersonalize_step rnd lr r new_member_ratings song_features)
       \<lparr>fcur_params = new_member_params, fprinted = [], frounds = 0\<rparr>"

text \<open>
  What the functions of this section return when they do not fail, as in the section on
  closed forms: the predictions, a broadcast difference, the loss, the gradient, one
  update, and the parameters of the new members after \<open>n\<close> rounds of their loop, in which
  a round divisible by 50 updates twice.
\<close>

definition fshapes_ok :: "fmatrix \<Rightarrow> fmatrix \<Rightarrow> fmatrix \<Rightarrow> bool" where
  "fshapes_ok params target song_data =
     (broadcastable (fcols song_data) (fcols params)
      \<and> broadcastable (frows target) (frows song_data)
      \<and> broadcastable (fcols target) (frows params))"

definition fpred_m :: "(fval \<Rightarrow> fval) \<Rightarrow> fmatrix \<Rightarrow> fmatrix \<Rightarrow> fmatrix" where
  "fpred_m rnd D P =
     \<lparr>frows = frows D, fcols = frows P,
      fentry = \<lambda>i u. fsum rnd (\<lambda>f. rnd (fmul (fentry D i (bidx (fcols D) f))
                                            (fentry P u (bidx (fcols P) f))))
                        (bc_extent (fcols D) (fcols P))\<rparr>"

definition fdiff_m :: "(fval \<Rightarrow> fval) \<Rightarrow> fmatrix \<Rightarrow> fmatrix \<Rightarrow> fmatrix" where
  "fdiff_m rnd A B =
     \<lparr>frows = bc_extent (frows A) (frows B), fcols = bc_extent (fcols A) (fcols B),
      fentry = \<lambda>i j. rnd (fadd (fentry A (bidx (frows A) i) (bidx (fcols A) j))
                         (fneg (fentry B (bidx (frows B) i) (bidx (fcols B) j))))\<rparr>"

definition floss_m :: "(fval \<Rightarrow> fval) \<Rightarrow> fmatrix \<Rightarrow> fmatrix \<Rightarrow> fmatrix \<Rightarrow> fval" where
  "floss_m rnd P T D = fmean rnd (fabs_m (fdiff_m rnd T (fpred_m rnd D P)))"

definition fgrad_m :: "(fval \<Rightarrow> fval) \<Rightarrow> fmatrix \<Rightarrow> fmatrix \<Rightarrow> fmatrix \<Rightarrow> fmatrix" where
  "fgrad_m rnd P T D =
     fvjp_vmap_calc_people_ratings rnd D P
       (fvjp_sub_rhs rnd (fpred_m rnd D P)
          (fvjp_abs (fdiff_m rnd T (fpred_m rnd D P))
             (fvjp_mean rnd (fabs_m (fdiff_m rnd T (fpred_m rnd D P))))))"

definition fdescend :: "(fval \<Rightarrow> fval) \<Rightarrow> fval \<Rightarrow> fmatrix \<Rightarrow> fmatrix \<Rightarrow> fmatrix \<Rightarrow> fmatrix" where
  "fdescend rnd lr T D P = fdiff_m rnd P (fscale rnd (fgrad_m rnd P T D) lr)"

primrec fpersonalized ::
    "(fval \<Rightarrow> fval) \<Rightarrow> fval \<Rightarrow> fmatrix \<Rightarrow> fmatrix \<Rightarrow> nat \<Rightarrow> fmatrix \<Rightarrow> fmatrix" where
  "fpersonalized rnd lr T D 0 P = P"
| "fpersonalized rnd lr T D (Suc n) P =
     (if n mod 50 = 0
      then fdescend rnd lr T D (fdescend rnd lr T D (fpersonalized rnd lr T D n P))
      else fdescend rnd lr T D (fpersonalized rnd lr T D n P))"

text \<open>
  An arithmetic with the range of the 32-bit floating-point numbers and no loss of
  precision inside it: a result beyond the largest 32-bit number becomes an infinity.
\<close>

definition float32_max :: real where
  "float32_max = 340282346638528859811704183484516925440"

definition overflow32 :: "fval \<Rightarrow> fval" where
  "overflow32 x =
     (case x of
        Num a \<Rightarrow> if float32_max < a then PosInf else if a < - float32_max then NegInf else Num a
      | PosInf \<Rightarrow> PosInf
      | NegInf \<Rightarrow> NegInf
      | NotANumber \<Rightarrow> NotANumber)"

definition farray2 :: "nat \<Rightarrow> nat \<Rightarrow> fval list list \<Rightarrow> fmatrix" where
  "farray2 r c rows = \<lparr>frows = r, fcols = c, fentry = \<lambda>i j. rows ! i ! j\<rparr>"

text \<open>
  One song with the feature 2^70, one person with parameter 0 and rating 1, for a run
  with the learning rate 2^70; and a rating that is NaN.
\<close>

definition big_features :: fmatrix where
  "big_features = farray2 1 1 [[Num (2 ^ 70)]]"

definition one_rating :: fmatrix where
  "one_rating = farray2 1 1 [[Num 1]]"

definition zero_params :: fmatrix where
  "zero_params = farray2 1 1 [[Num 0]]"

definition nan_rating :: fmatrix where
  "nan_rating = farray2 1 1 [[NotANumber]]"

text \<open>
  The arrays, losses and states of the sections in exact arithmetic, read as arrays,
  losses and states of this section.
\<close>

definition to_f :: "matrix \<Rightarrow> fmatrix" where
  "to_f M = \<lparr>frows = nrows M, fcols = ncols M, fentry = \<lambda>i j. Num (entry M i j)\<rparr>"

definition scalar_to_f :: "scalar \<Rightarrow> fval" where
  "scalar_to_f x = (case x of Finite r \<Rightarrow> Num r | NaN \<Rightarrow> NotANumber)"

definition line_to_f :: "output_line \<Rightarrow> foutput_line" where
  "line_to_f l =
     (case l of
        IterationLoss i x \<Rightarrow> FIterationLoss i (scalar_to_f x)
      | FinalLoss x \<Rightarrow> FFinalLoss (scalar_to_f x))"

definition state_to_f :: "run_state \<Rightarrow> frun_state" where
  "state_to_f s =
     \<lparr>fcur_params = to_f (cur_params s), fprinted = map line_to_f (printed s),
      frounds = rounds s\<rparr>"

section \<open>Shapes and selectors\<close>

lemma array2_sel [simp]:
  "nrows (array2 r c rows) = r" "ncols (array2 r c rows) = c"
  "entry (array2 r c rows) i j = rows ! i ! j"
  by (simp_all add: array2_def)

lemma lessThan_2: "{..<(2::nat)} = {0, 1}"
  by auto

lemma broadcastable_same [simp]: "broadcastable n n"
  by (simp add: broadcastable_def)

lemma bc_extent_same [simp]: "bc_extent n n = n"
  by (simp add: bc_extent_def)

lemma bidx_less [simp]: "i < n \<Longrightarrow> bidx n i = i"
  by (simp add: bidx_def)

lemma bidx_in_range:
  assumes "broadcastable m n" and "i < bc_extent m n"
  shows "bidx m i < m" and "bidx n i < n"
  using assms by (auto simp: broadcastable_def bc_extent_def bidx_def split: if_splits)

lemma sum_bidx_cong: "(\<Sum>k<n. g (bidx n k)) = (\<Sum>k<n. g k)"
  by (rule sum.cong) simp_all

lemma pred_m_shape [simp]: "nrows (pred_m D P) = nrows D" "ncols (pred_m D P) = nrows P"
  by (simp_all add: pred_m_def)

lemma diff_m_shape [simp]:
  "nrows (diff_m A B) = bc_extent (nrows A) (nrows B)"
  "ncols (diff_m A B) = bc_extent (ncols A) (ncols B)"
  by (simp_all add: diff_m_def)

lemma grad_m_shape [simp]: "nrows (grad_m P T D) = nrows P" "ncols (grad_m P T D) = ncols P"
  by (simp_all add: grad_m_def vjp_vmap_calc_people_ratings_def)

lemma abs_m_shape [simp]: "nrows (abs_m M) = nrows M" "ncols (abs_m M) = ncols M"
  by (simp_all add: abs_m_def)

lemma scale_shape [simp]: "nrows (scale M c) = nrows M" "ncols (scale M c) = ncols M"
  by (simp_all add: scale_def)

lemma descend_shape [simp]:
  "nrows (descend lr T D P) = nrows P" "ncols (descend lr T D P) = ncols P"
  by (simp_all add: descend_def)

lemma funpow_descend_shape [simp]:
  "nrows ((descend lr T D ^^ k) P) = nrows P" "ncols ((descend lr T D ^^ k) P) = ncols P"
  by (induction k) simp_all

lemma shapes_ok_descend [simp]: "shapes_ok (descend lr T D P) T D = shapes_ok P T D"
  by (simp add: shapes_ok_def)

lemma shapes_ok_funpow [simp]: "shapes_ok ((descend lr T D ^^ k) P) T D = shapes_ok P T D"
  by (simp add: shapes_ok_def)

section \<open>What the operations return\<close>

lemma calc_people_ratings_eq:
  "calc_people_ratings song P =
     (if broadcastable (len song) (ncols P)
      then Inr \<lparr>len = nrows P,
                elem = \<lambda>u. \<Sum>f<bc_extent (len song) (ncols P).
                          elem song (bidx (len song) f) * entry P u (bidx (ncols P) f)\<rparr>
      else Inl IncompatibleShapes)"
  by (simp add: calc_people_ratings_def mul_vec_mat_def broadcast_dim_def sum_axis1_def)

lemma vmap_calc_people_ratings_pred:
  "vmap_calc_people_ratings D P =
     (if broadcastable (ncols D) (ncols P) then Inr (pred_m D P) else Inl IncompatibleShapes)"
  by (simp add: vmap_calc_people_ratings_def vmap_axis0_def calc_people_ratings_eq row_def
      pred_m_def)

lemma sub_bc_eq:
  "sub_bc A B =
     (if broadcastable (nrows A) (nrows B) \<and> broadcastable (ncols A) (ncols B)
      then Inr (diff_m A B) else Inl IncompatibleShapes)"
  by (simp add: sub_bc_def broadcast_dim_def diff_m_def)

lemma loss_eq:
  "loss P T D = (if shapes_ok P T D then Inr (loss_m P T D) else Inl IncompatibleShapes)"
  by (simp add: loss_def mean_abs_diff_def vmap_calc_people_ratings_pred sub_bc_eq
      shapes_ok_def loss_m_def)

lemma grad_loss_eq:
  "grad_loss P T D = (if shapes_ok P T D then Inr (grad_m P T D) else Inl IncompatibleShapes)"
  by (simp add: grad_loss_def vmap_calc_people_ratings_pred sub_bc_eq shapes_ok_def grad_m_def)

lemma pred_m_proper:
  "ncols D = ncols P \<Longrightarrow>
   pred_m D P = \<lparr>nrows = nrows D, ncols = nrows P, entry = \<lambda>i u. dot (row D i) (row P u)\<rparr>"
  by (simp add: pred_m_def dot_def row_def sum_bidx_cong)

section \<open>The rating predictor\<close>

text \<open>
  C2. When the song vector and the rows of the parameter matrix have the same length,
  \<open>calc_people_ratings\<close> returns, for every person \<open>u\<close>, the dot product of the song with
  row \<open>u\<close> of the parameters. When the feature matrix and the parameter matrix have the
  same number of columns, the batched form returns the Item x Agent matrix whose entry
  \<open>(i, u)\<close> is the dot product of feature row \<open>i\<close> and parameter row \<open>u\<close>, for all pairs
  \<open>(i, u)\<close>; its row \<open>i\<close> is what \<open>calc_people_ratings\<close> returns for song \<open>i\<close>.
\<close>

theorem predict_is_dot_product:
  assumes "len song = ncols P" and "ncols D = ncols P"
  shows "calc_people_ratings song P = Inr \<lparr>len = nrows P, elem = \<lambda>u. dot song (row P u)\<rparr>
       \<and> vmap_calc_people_ratings D P
           = Inr \<lparr>nrows = nrows D, ncols = nrows P, entry = \<lambda>i u. dot (row D i) (row P u)\<rparr>
       \<and> (\<forall>i. calc_people_ratings (row D i) P
              = Inr \<lparr>len = nrows P, elem = \<lambda>u. dot (row D i) (row P u)\<rparr>)"
  using assms
  by (simp add: calc_people_ratings_eq vmap_calc_people_ratings_pred pred_m_proper dot_def
      row_def sum_bidx_cong)

theorem predict_is_dot_product_witness:
  "vmap_calc_people_ratings ex_features ex_params
     = Inr \<lparr>nrows = 2, ncols = 2,
            entry = \<lambda>i u. dot (row ex_features i) (row ex_params u)\<rparr>
   \<and> dot (row ex_features 1) (row ex_params 0) = 3"
  using predict_is_dot_product [of "row ex_features 0" ex_params ex_features]
  by (simp add: ex_features_def ex_params_def row_def dot_def lessThan_2)

text \<open>
  C7. When the feature matrix and the parameter matrix have the same number of columns,
  the batched prediction is the matrix product of the feature matrix with the transpose of
  the parameter matrix.
\<close>

theorem batched_prediction_is_matrix_product:
  assumes "ncols D = ncols P"
  shows "vmap_calc_people_ratings D P = Inr (matmul D (transpose_m P))"
  using assms
  by (simp add: vmap_calc_people_ratings_pred pred_m_def matmul_def transpose_m_def
      sum_bidx_cong)

theorem batched_prediction_is_matrix_product_witness:
  "vmap_calc_people_ratings ex_features ex_params
     = Inr (matmul ex_features (transpose_m ex_params))
   \<and> entry (matmul ex_features (transpose_m ex_params)) 1 0 = 3"
  using batched_prediction_is_matrix_product [of ex_features ex_params]
  by (simp add: ex_features_def ex_params_def matmul_def transpose_m_def lessThan_2)

section \<open>The loss\<close>

lemma mean_abs_diff_nonempty:
  assumes "nrows A = nrows B" and "ncols A = ncols B" and "0 < nrows A" and "0 < ncols A"
  shows "mean_abs_diff A B =
    Inr (Finite ((\<Sum>i<nrows A. \<Sum>j<ncols A. \<bar>entry A i j - entry B i j\<bar>)
                  / real (nrows A * ncols A)))"
proof -
  have "(\<Sum>i<nrows B. \<Sum>j<ncols B. \<bar>entry A (bidx (nrows B) i) (bidx (ncols B) j)
            - entry B (bidx (nrows B) i) (bidx (ncols B) j)\<bar>)
      = (\<Sum>i<nrows B. \<Sum>j<ncols B. \<bar>entry A i j - entry B i j\<bar>)"
    by (intro sum.cong refl) simp
  then show ?thesis
    using assms by (simp add: mean_abs_diff_def sub_bc_eq mean_def abs_m_def diff_m_def)
qed

lemma mean_abs_diff_same_shape:
  assumes "nrows pred = nrows T" and "ncols pred = ncols T"
  shows "mean_abs_diff T pred = Inr (mean_absolute_error pred T)"
proof -
  have "(\<Sum>i<nrows T. \<Sum>j<ncols T. \<bar>entry T (bidx (nrows T) i) (bidx (ncols T) j)
            - entry pred (bidx (nrows T) i) (bidx (ncols T) j)\<bar>)
      = (\<Sum>i<nrows T. \<Sum>u<ncols T. \<bar>entry pred i u - entry T i u\<bar>)"
    by (intro sum.cong refl) (simp add: abs_minus_commute)
  then show ?thesis
    using assms
    by (simp add: mean_abs_diff_def sub_bc_eq mean_def abs_m_def diff_m_def
        mean_absolute_error_def)
qed

lemma double_sum_abs_zero_iff:
  "(\<Sum>i<(r::nat). \<Sum>j<(c::nat). \<bar>g i j :: real\<bar>) = 0 \<longleftrightarrow> (\<forall>i<r. \<forall>j<c. g i j = 0)"
proof -
  have "(\<Sum>i<r. \<Sum>j<c. \<bar>g i j\<bar>) = 0 \<longleftrightarrow> (\<forall>i\<in>{..<r}. (\<Sum>j<c. \<bar>g i j\<bar>) = 0)"
    by (rule sum_nonneg_eq_0_iff) (simp_all add: sum_nonneg)
  also have "\<dots> \<longleftrightarrow> (\<forall>i\<in>{..<r}. \<forall>j\<in>{..<c}. \<bar>g i j\<bar> = 0)"
    by (simp add: sum_nonneg_eq_0_iff)
  finally show ?thesis by (simp add: Ball_def)
qed

text \<open>
  C3. For a prediction matrix and a target matrix of the same shape, the second line of
  \<open>loss\<close> returns the mean of the absolute elementwise differences over all entries (NaN
  when there is no entry, as the mean of nothing); and \<open>loss\<close> returns this value for the
  predictions that its first line computes.
\<close>

theorem loss_is_mean_absolute_error:
  assumes "nrows predicted = nrows target" and "ncols predicted = ncols target"
  shows "mean_abs_diff target predicted = Inr (mean_absolute_error predicted target)
       \<and> (vmap_calc_people_ratings D P = Inr predicted
            \<longrightarrow> loss P target D = Inr (mean_absolute_error predicted target))"
  using assms by (simp add: loss_def mean_abs_diff_same_shape)

theorem loss_is_mean_absolute_error_witness:
  "mean_abs_diff ex_ratings (array2 2 2 [[1, 0], [3, 1]]) = Inr (Finite 1)"
  using loss_is_mean_absolute_error [of "array2 2 2 [[1, 0], [3, 1]]" ex_ratings]
  by (simp add: mean_absolute_error_def ex_ratings_def lessThan_2)

text \<open>
  C6, as amended. For matrices \<open>A\<close> and \<open>B\<close> of the same shape with at least one entry:
  the loss of \<open>A\<close> against itself is 0; the loss of \<open>A\<close> against \<open>B\<close> is a number that is
  not negative; and it is 0 if and only if \<open>A\<close> and \<open>B\<close> are equal entry by entry.
\<close>

theorem loss_zero_iff_equal:
  assumes "nrows A = nrows B" and "ncols A = ncols B" and "0 < nrows A" and "0 < ncols A"
  shows "mean_abs_diff A A = Inr (Finite 0)
       \<and> (\<exists>l. mean_abs_diff A B = Inr (Finite l) \<and> 0 \<le> l
              \<and> (l = 0 \<longleftrightarrow> (\<forall>i<nrows A. \<forall>j<ncols A. entry A i j = entry B i j)))"
proof -
  let ?S = "\<Sum>i<nrows A. \<Sum>j<ncols A. \<bar>entry A i j - entry B i j\<bar>"
  let ?n = "real (nrows A * ncols A)"
  have n: "0 < ?n" using assms by simp
  have same: "mean_abs_diff A A = Inr (Finite 0)"
    using assms(3,4) by (simp add: mean_abs_diff_nonempty)
  have AB: "mean_abs_diff A B = Inr (Finite (?S / ?n))"
    using assms by (rule mean_abs_diff_nonempty)
  have "0 \<le> ?S" by (simp add: sum_nonneg)
  then have nonneg: "0 \<le> ?S / ?n" using n by simp
  have "?S / ?n = 0 \<longleftrightarrow> ?S = 0" using assms(3,4) by simp
  also have "\<dots> \<longleftrightarrow> (\<forall>i<nrows A. \<forall>j<ncols A. entry A i j = entry B i j)"
    by (simp add: double_sum_abs_zero_iff)
  finally show ?thesis using same AB nonneg by simp
qed

theorem loss_zero_iff_equal_witness:
  "mean_abs_diff ex_ratings ex_ratings = Inr (Finite 0)
   \<and> (\<exists>l. mean_abs_diff ex_ratings ex_ratings' = Inr (Finite l) \<and> 0 < l)"
proof -
  have shape: "nrows ex_ratings = nrows ex_ratings'" "ncols ex_ratings = ncols ex_ratings'"
    "0 < nrows ex_ratings" "0 < ncols ex_ratings"
    by (simp_all add: ex_ratings_def ex_ratings'_def)
  have differ: "\<not> (\<forall>i<nrows ex_ratings. \<forall>j<ncols ex_ratings.
                    entry ex_ratings i j = entry ex_ratings' i j)"
  proof
    assume "\<forall>i<nrows ex_ratings. \<forall>j<ncols ex_ratings.
              entry ex_ratings i j = entry ex_ratings' i j"
    moreover have "0 < nrows ex_ratings" and "1 < ncols ex_ratings"
      by (simp_all add: ex_ratings_def)
    ultimately have "entry ex_ratings 0 1 = entry ex_ratings' 0 1"
      by blast
    then show False
      by (simp add: ex_ratings_def ex_ratings'_def)
  qed
  from loss_zero_iff_equal [OF shape] differ show ?thesis
    by fastforce
qed

text \<open>
  The claim as stated, for every matrix, fails where the matrix has no entry: the mean of
  nothing is NaN, not 0.
\<close>

theorem loss_of_empty_matrix_is_nan:
  "mean_abs_diff (array2 0 3 []) (array2 0 3 []) = Inr NaN
   \<and> mean_abs_diff (array2 0 3 []) (array2 0 3 []) \<noteq> Inr (Finite 0)"
  by (simp add: mean_abs_diff_def sub_bc_eq mean_def abs_m_def)

section \<open>The gradient\<close>

lemma residual_sign_sgn:
  "residual_sign P T D i u = sgn (dot (row D i) (row P u) - entry T i u)"
  by (simp add: residual_sign_def sgn_real_def Let_def)

lemma code_residual_sign_nonzero:
  "dot (row D i) (row P u) \<noteq> entry T i u \<Longrightarrow>
   code_residual_sign P T D i u = residual_sign P T D i u"
  by (simp add: code_residual_sign_def residual_sign_def Let_def)

lemma code_residual_sign_zero:
  "dot (row D i) (row P u) = entry T i u \<Longrightarrow> code_residual_sign P T D i u = - 1"
  by (simp add: code_residual_sign_def)

lemma grad_m_entry_proper:
  assumes F: "ncols D = ncols P" and I: "nrows T = nrows D" and A: "ncols T = nrows P"
    and u: "u < nrows P" and f: "f < ncols P"
  shows "entry (grad_m P T D) u f = code_subgradient P T D u f"
proof -
  let ?n = "real (nrows D * nrows P)"
  have "entry (grad_m P T D) u f
      = (\<Sum>i<nrows D. - (if dot (row D i) (row P u) \<le> entry T i u then 1 / ?n else - (1 / ?n))
            * entry D i f)"
    using assms
    by (simp add: grad_m_def vjp_vmap_calc_people_ratings_def vjp_calc_people_ratings_def
          vjp_sub_rhs_def vjp_abs_def vjp_mean_def abs_m_def unbroadcast_def row_def
          pred_m_proper diff_m_def dot_def cong: if_cong)
  also have "\<dots> = (\<Sum>i<nrows D. (1 / ?n) * (code_residual_sign P T D i u * entry D i f))"
    by (rule sum.cong) (simp_all add: code_residual_sign_def)
  also have "\<dots> = code_subgradient P T D u f"
    by (simp add: code_subgradient_def sum_distrib_left)
  finally show ?thesis .
qed

lemma code_subgradient_smooth:
  assumes "\<forall>i<nrows D. entry D i f = 0 \<or> dot (row D i) (row P u) \<noteq> entry T i u"
  shows "code_subgradient P T D u f = subgradient P T D u f"
proof -
  have "code_residual_sign P T D i u * entry D i f = residual_sign P T D i u * entry D i f"
    if "i < nrows D" for i
    using assms that by (auto simp: code_residual_sign_nonzero)
  then have "(\<Sum>i<nrows D. code_residual_sign P T D i u * entry D i f)
           = (\<Sum>i<nrows D. residual_sign P T D i u * entry D i f)"
    by (intro sum.cong refl) simp
  then show ?thesis
    by (simp add: code_subgradient_def subgradient_def)
qed

text \<open>
  The spec's closed form is the derivative of the loss wherever the loss is
  differentiable. The loss, as a function of the parameter \<open>(u, f)\<close> alone, has the
  derivative \<open>subgradient P T D u f\<close> at the current value of that parameter, provided
  that no song with a non-zero feature \<open>f\<close> is predicted exactly for person \<open>u\<close>. This
  is proved from the forward computation of \<open>loss\<close> only.
\<close>

lemma DERIV_abs_real:
  assumes "x \<noteq> (0::real)"
  shows "(abs has_real_derivative sgn x) (at x)"
proof (cases "0 < x")
  case True
  have "((\<lambda>y. y) has_real_derivative 1) (at x)" by (rule DERIV_ident)
  then have "(abs has_real_derivative 1) (at x)"
    by (rule has_field_derivative_transform_within_open [where S = "{0<..}"])
      (use True in auto)
  with True show ?thesis by simp
next
  case False
  with assms have neg: "x < 0" by simp
  have "((\<lambda>y. - y) has_real_derivative - 1) (at x)"
    by (rule DERIV_minus) (rule DERIV_ident)
  then have "(abs has_real_derivative - 1) (at x)"
    by (rule has_field_derivative_transform_within_open [where S = "{..<0}"])
      (use neg in auto)
  with neg show ?thesis by simp
qed

lemma DERIV_abs_affine:
  assumes "b = 0 \<or> b * t0 + c \<noteq> (a::real)"
  shows "((\<lambda>t. \<bar>a - (b * t + c)\<bar>) has_real_derivative sgn (b * t0 + c - a) * b) (at t0)"
proof (cases "b = 0")
  case True
  then show ?thesis by simp
next
  case False
  with assms have nz: "a - (b * t0 + c) \<noteq> 0" by simp
  have inner: "((\<lambda>t. a - (b * t + c)) has_real_derivative - b) (at t0)"
    by (auto intro!: derivative_eq_intros)
  have "((\<lambda>t. \<bar>a - (b * t + c)\<bar>) has_real_derivative sgn (a - (b * t0 + c)) * (- b)) (at t0)"
    using DERIV_chain2 [OF DERIV_abs_real [OF nz] inner] .
  moreover have "sgn (a - (b * t0 + c)) = - sgn (b * t0 + c - a)"
    by (metis minus_diff_eq sgn_minus)
  ultimately show ?thesis by simp
qed

lemma set_entry_shape [simp]:
  "nrows (set_entry P u f t) = nrows P" "ncols (set_entry P u f t) = ncols P"
  by (simp_all add: set_entry_def)

lemma dot_set_entry_other:
  "v \<noteq> u \<Longrightarrow> dot (row D i) (row (set_entry P u f t) v) = dot (row D i) (row P v)"
  by (simp add: dot_def row_def set_entry_def)

lemma dot_set_entry_same:
  assumes "f < ncols D"
  shows "dot (row D i) (row (set_entry P u f t) u)
       = entry D i f * t + (\<Sum>k\<in>{..<ncols D} - {f}. entry D i k * entry P u k)"
proof -
  have "dot (row D i) (row (set_entry P u f t) u)
      = (\<Sum>k<ncols D. entry D i k * (if k = f then t else entry P u k))"
    by (simp add: dot_def row_def set_entry_def)
  also have "\<dots> = entry D i f * t
      + (\<Sum>k\<in>{..<ncols D} - {f}. entry D i k * (if k = f then t else entry P u k))"
    using assms by (subst sum.remove [of _ f]) simp_all
  also have "(\<Sum>k\<in>{..<ncols D} - {f}. entry D i k * (if k = f then t else entry P u k))
      = (\<Sum>k\<in>{..<ncols D} - {f}. entry D i k * entry P u k)"
    by (rule sum.cong) auto
  finally show ?thesis .
qed

lemma dot_split:
  assumes "f < ncols D"
  shows "dot (row D i) (row P u)
       = entry D i f * entry P u f + (\<Sum>k\<in>{..<ncols D} - {f}. entry D i k * entry P u k)"
  using assms by (simp add: dot_def row_def sum.remove [of _ f])

lemma loss_m_proper_value:
  assumes "ncols D = ncols P" and "nrows T = nrows D" and "ncols T = nrows P"
    and "0 < nrows D" and "0 < nrows P"
  shows "finite_value (loss_m P T D)
       = (\<Sum>i<nrows D. \<Sum>v<nrows P. \<bar>entry T i v - dot (row D i) (row P v)\<bar>)
           / real (nrows D * nrows P)"
proof -
  have "(\<Sum>i<nrows D. \<Sum>j<nrows P. \<bar>entry T (bidx (nrows D) i) (bidx (nrows P) j)
            - dot (row D (bidx (nrows D) i)) (row P (bidx (nrows P) j))\<bar>)
      = (\<Sum>i<nrows D. \<Sum>v<nrows P. \<bar>entry T i v - dot (row D i) (row P v)\<bar>)"
    by (intro sum.cong refl) simp
  then show ?thesis
    using assms
    by (simp add: loss_m_def mean_def abs_m_def diff_m_def pred_m_proper finite_value_def)
qed

lemma loss_partial_derivative:
  assumes F: "ncols D = ncols P" and I: "nrows T = nrows D" and A: "ncols T = nrows P"
    and items: "0 < nrows D" and u: "u < nrows P" and f: "f < ncols P"
    and smooth: "\<forall>i<nrows D. entry D i f = 0 \<or> dot (row D i) (row P u) \<noteq> entry T i u"
  shows "((\<lambda>t. finite_value (loss_m (set_entry P u f t) T D))
            has_real_derivative subgradient P T D u f) (at (entry P u f))"
proof -
  let ?t0 = "entry P u f"
  let ?c = "\<lambda>i. \<Sum>k\<in>{..<ncols D} - {f}. entry D i k * entry P u k"
  let ?h = "\<lambda>i v t. if v = u then \<bar>entry T i u - (entry D i f * t + ?c i)\<bar>
                     else \<bar>entry T i v - dot (row D i) (row P v)\<bar>"
  let ?dh = "\<lambda>i v. if v = u then sgn (dot (row D i) (row P u) - entry T i u) * entry D i f
                     else (0::real)"
  have fD: "f < ncols D" using f F by simp
  have lossval: "finite_value (loss_m (set_entry P u f t) T D)
             = (\<Sum>i<nrows D. \<Sum>v<nrows P. ?h i v t) / real (nrows D * nrows P)" for t
  proof -
    have "finite_value (loss_m (set_entry P u f t) T D)
        = (\<Sum>i<nrows D. \<Sum>v<nrows P. \<bar>entry T i v - dot (row D i) (row (set_entry P u f t) v)\<bar>)
            / real (nrows D * nrows P)"
      using F I A items u by (subst loss_m_proper_value) simp_all
    also have "(\<Sum>i<nrows D. \<Sum>v<nrows P.
                  \<bar>entry T i v - dot (row D i) (row (set_entry P u f t) v)\<bar>)
             = (\<Sum>i<nrows D. \<Sum>v<nrows P. ?h i v t)"
      by (intro sum.cong refl) (simp add: dot_set_entry_other dot_set_entry_same [OF fD])
    finally show ?thesis .
  qed
  have each: "(?h i v has_real_derivative ?dh i v) (at ?t0)" if "i < nrows D" for i v
  proof (cases "v = u")
    case True
    from smooth that have "entry D i f = 0 \<or> entry D i f * ?t0 + ?c i \<noteq> entry T i u"
      by (simp add: dot_split [OF fD])
    then have "((\<lambda>t. \<bar>entry T i u - (entry D i f * t + ?c i)\<bar>)
        has_real_derivative sgn (entry D i f * ?t0 + ?c i - entry T i u) * entry D i f) (at ?t0)"
      by (rule DERIV_abs_affine)
    then show ?thesis
      using True by (simp add: dot_split [OF fD])
  next
    case False
    then show ?thesis by simp
  qed
  have "((\<lambda>t. \<Sum>i<nrows D. \<Sum>v<nrows P. ?h i v t)
          has_real_derivative (\<Sum>i<nrows D. \<Sum>v<nrows P. ?dh i v)) (at ?t0)"
    by (intro DERIV_sum each) simp
  then have "((\<lambda>t. (\<Sum>i<nrows D. \<Sum>v<nrows P. ?h i v t) / real (nrows D * nrows P))
          has_real_derivative (\<Sum>i<nrows D. \<Sum>v<nrows P. ?dh i v) / real (nrows D * nrows P))
          (at ?t0)"
    by (rule DERIV_cdivide)
  moreover have "(\<Sum>i<nrows D. \<Sum>v<nrows P. ?dh i v) / real (nrows D * nrows P)
      = subgradient P T D u f"
    using u by (simp add: subgradient_def residual_sign_sgn)
  ultimately show ?thesis
    by (simp add: lossval)
qed

lemma grad_loss_is_partial_derivative:
  assumes F: "ncols D = ncols P" and I: "nrows T = nrows D" and A: "ncols T = nrows P"
    and items: "0 < nrows D" and u: "u < nrows P" and f: "f < ncols P"
    and smooth: "\<forall>i<nrows D. entry D i f = 0 \<or> dot (row D i) (row P u) \<noteq> entry T i u"
  shows "\<exists>\<phi>. (\<forall>t. loss (set_entry P u f t) T D = Inr (Finite (\<phi> t)))
           \<and> (\<phi> has_real_derivative entry (grad_m P T D) u f) (at (entry P u f))"
proof -
  let ?\<phi> = "\<lambda>t. finite_value (loss_m (set_entry P u f t) T D)"
  have a: "\<forall>t. loss (set_entry P u f t) T D = Inr (Finite (?\<phi> t))"
    using F I A items u
    by (simp add: loss_eq shapes_ok_def loss_m_def mean_def abs_m_def finite_value_def)
  have b: "(?\<phi> has_real_derivative entry (grad_m P T D) u f) (at (entry P u f))"
    using loss_partial_derivative [OF assms] grad_m_entry_proper [OF F I A u f]
      code_subgradient_smooth [OF smooth]
    by simp
  show ?thesis
    by (rule exI [of _ ?\<phi>]) (intro conjI a b)
qed

text \<open>
  C1, as amended. For a parameter matrix (Agent x F), a target matrix (Item x Agent) and a
  feature matrix (Item x F) with at least one item, \<open>grad(loss)\<close> returns a matrix of the
  shape of the parameters whose row \<open>u\<close> is 1 / (Item-count * Agent-count) times the sum
  over the items \<open>i\<close> of \<open>s(i,u)\<close> times feature row \<open>i\<close>, where \<open>s(i,u)\<close> is the sign of
  predicted(i,u) - target(i,u), and -1 where that residual is exactly 0. Where no residual
  of person \<open>u\<close> is 0 this is the formula with sign(0) = 0; and where no song with a
  non-zero feature \<open>f\<close> has residual 0 for person \<open>u\<close>, the entry \<open>(u, f)\<close> is the
  derivative of \<open>loss\<close> in the parameter \<open>(u, f)\<close>.
\<close>

theorem gradient_is_code_subgradient:
  assumes "ncols D = ncols P" and "nrows T = nrows D" and "ncols T = nrows P"
    and "0 < nrows D"
  shows "\<exists>G. grad_loss P T D = Inr G \<and> nrows G = nrows P \<and> ncols G = ncols P
           \<and> (\<forall>u<nrows P. \<forall>f<ncols P.
                 entry G u f = code_subgradient P T D u f
                 \<and> ((\<forall>i<nrows D. dot (row D i) (row P u) \<noteq> entry T i u)
                      \<longrightarrow> entry G u f = subgradient P T D u f)
                 \<and> ((\<forall>i<nrows D. entry D i f = 0 \<or> dot (row D i) (row P u) \<noteq> entry T i u)
                      \<longrightarrow> (\<exists>\<phi>. (\<forall>t. loss (set_entry P u f t) T D = Inr (Finite (\<phi> t)))
                              \<and> (\<phi> has_real_derivative entry G u f) (at (entry P u f)))))"
proof -
  have ok: "shapes_ok P T D"
    using assms by (simp add: shapes_ok_def)
  have each: "entry (grad_m P T D) u f = code_subgradient P T D u f
        \<and> ((\<forall>i<nrows D. dot (row D i) (row P u) \<noteq> entry T i u)
             \<longrightarrow> entry (grad_m P T D) u f = subgradient P T D u f)
        \<and> ((\<forall>i<nrows D. entry D i f = 0 \<or> dot (row D i) (row P u) \<noteq> entry T i u)
             \<longrightarrow> (\<exists>\<phi>. (\<forall>t. loss (set_entry P u f t) T D = Inr (Finite (\<phi> t)))
                     \<and> (\<phi> has_real_derivative entry (grad_m P T D) u f) (at (entry P u f))))"
    if u: "u < nrows P" and f: "f < ncols P" for u f
  proof (intro conjI impI)
    show "entry (grad_m P T D) u f = code_subgradient P T D u f"
      using assms(1-3) u f by (rule grad_m_entry_proper)
  next
    assume "\<forall>i<nrows D. dot (row D i) (row P u) \<noteq> entry T i u"
    then have "code_subgradient P T D u f = subgradient P T D u f"
      by (intro code_subgradient_smooth) simp
    then show "entry (grad_m P T D) u f = subgradient P T D u f"
      using grad_m_entry_proper [OF assms(1-3) u f] by simp
  next
    assume "\<forall>i<nrows D. entry D i f = 0 \<or> dot (row D i) (row P u) \<noteq> entry T i u"
    then show "\<exists>\<phi>. (\<forall>t. loss (set_entry P u f t) T D = Inr (Finite (\<phi> t)))
                 \<and> (\<phi> has_real_derivative entry (grad_m P T D) u f) (at (entry P u f))"
      using assms u f by (intro grad_loss_is_partial_derivative)
  qed
  have g: "grad_loss P T D = Inr (grad_m P T D)"
    using ok by (simp add: grad_loss_eq)
  show ?thesis
    by (rule exI [of _ "grad_m P T D"]) (intro conjI allI impI g grad_m_shape each)
qed

theorem gradient_is_code_subgradient_witness:
  "\<exists>G. grad_loss ex_params ex_ratings ex_features = Inr G
       \<and> entry G 0 0 = 0 \<and> entry G 0 1 = - 1 / 4 \<and> entry G 1 0 = 0 \<and> entry G 1 1 = 1 / 4
       \<and> (\<exists>\<phi>. (\<forall>t. loss (set_entry ex_params 0 1 t) ex_ratings ex_features = Inr (Finite (\<phi> t)))
              \<and> (\<phi> has_real_derivative - 1 / 4) (at 2))"
proof -
  have sub: "code_subgradient ex_params ex_ratings ex_features 0 0 = 0"
    "code_subgradient ex_params ex_ratings ex_features 0 1 = - 1 / 4"
    "code_subgradient ex_params ex_ratings ex_features 1 0 = 0"
    "code_subgradient ex_params ex_ratings ex_features 1 1 = 1 / 4"
    by (simp_all add: code_subgradient_def code_residual_sign_def dot_def row_def ex_params_def
        ex_ratings_def ex_features_def lessThan_2)
  have shape: "ncols ex_features = ncols ex_params" "nrows ex_ratings = nrows ex_features"
    "ncols ex_ratings = nrows ex_params" "0 < nrows ex_features"
    by (simp_all add: ex_params_def ex_ratings_def ex_features_def)
  have smooth: "\<forall>i<nrows ex_features. entry ex_features i 1 = 0
      \<or> dot (row ex_features i) (row ex_params 0) \<noteq> entry ex_ratings i 0"
    by (simp add: ex_params_def ex_ratings_def ex_features_def dot_def row_def lessThan_2
        less_2_cases_iff)
  have at: "entry ex_params 0 1 = 2"
    by (simp add: ex_params_def)
  have idx: "(0::nat) < nrows ex_params" "(1::nat) < nrows ex_params"
    "(0::nat) < ncols ex_params" "(1::nat) < ncols ex_params"
    by (simp_all add: ex_params_def)
  from gradient_is_code_subgradient [OF shape]
  obtain G where G: "grad_loss ex_params ex_ratings ex_features = Inr G"
    and entries: "\<And>u f. u < nrows ex_params \<Longrightarrow> f < ncols ex_params \<Longrightarrow>
        entry G u f = code_subgradient ex_params ex_ratings ex_features u f
        \<and> ((\<forall>i<nrows ex_features. entry ex_features i f = 0
               \<or> dot (row ex_features i) (row ex_params u) \<noteq> entry ex_ratings i u)
             \<longrightarrow> (\<exists>\<phi>. (\<forall>t. loss (set_entry ex_params u f t) ex_ratings ex_features
                               = Inr (Finite (\<phi> t)))
                     \<and> (\<phi> has_real_derivative entry G u f) (at (entry ex_params u f))))"
    by blast
  have e: "entry G 0 0 = 0" "entry G 0 1 = - 1 / 4" "entry G 1 0 = 0" "entry G 1 1 = 1 / 4"
    using entries idx sub by metis+
  from entries [OF idx(1) idx(4)] smooth
  have "\<exists>\<phi>. (\<forall>t. loss (set_entry ex_params 0 1 t) ex_ratings ex_features = Inr (Finite (\<phi> t)))
          \<and> (\<phi> has_real_derivative entry G 0 1) (at (entry ex_params 0 1))"
    by blast
  with G e at show ?thesis by auto
qed

text \<open>
  The claim as stated, with sign(0) = 0, fails at a residual of exactly zero. One song
  with feature 1, one person with parameter 0 and rating 0: the prediction equals the
  rating, the formula of the claim gives the gradient 0, and \<open>grad(loss)\<close> returns -1.
\<close>

theorem gradient_at_zero_residual:
  "dot (row (one_by_one 1) 0) (row (one_by_one 0) 0) = entry (one_by_one 0) 0 0
   \<and> subgradient (one_by_one 0) (one_by_one 0) (one_by_one 1) 0 0 = 0
   \<and> map_sum id (\<lambda>G. entry G 0 0) (grad_loss (one_by_one 0) (one_by_one 0) (one_by_one 1))
       = Inr (- 1)"
proof -
  have "entry (grad_m (one_by_one 0) (one_by_one 0) (one_by_one 1)) 0 0 = - 1"
    by (subst grad_m_entry_proper)
      (simp_all add: one_by_one_def code_subgradient_def code_residual_sign_def dot_def row_def)
  then show ?thesis
    by (simp add: grad_loss_eq shapes_ok_def one_by_one_def subgradient_def residual_sign_def
        dot_def row_def)
qed

section \<open>The training loop\<close>

lemma train_step_eq:
  "train_step lr T D i s =
     (if shapes_ok (cur_params s) T D
      then Inr \<lparr>cur_params = descend lr T D (cur_params s),
                printed = (if i mod 50 = 0
                           then printed s @ [IterationLoss i (loss_m (cur_params s) T D)]
                           else printed s),
                rounds = Suc (rounds s)\<rparr>
      else Inl IncompatibleShapes)"
  by (simp add: train_step_def loss_eq grad_loss_eq sub_bc_eq descend_def)

lemma reports_step:
  assumes "i < n"
  shows "reports lr T D P i n =
           (if i mod 50 = 0 then [IterationLoss i (loss_m P T D)] else [])
           @ reports lr T D (descend lr T D P) (Suc i) n"
proof -
  have *: "(descend lr T D ^^ (j - i)) P = (descend lr T D ^^ (j - Suc i)) (descend lr T D P)"
    if "j \<in> set [Suc i..<n]" for j
  proof -
    from that have "j - i = Suc (j - Suc i)" by auto
    then show ?thesis by (simp add: funpow_swap1)
  qed
  have "map (\<lambda>j. IterationLoss j (loss_m ((descend lr T D ^^ (j - i)) P) T D))
          (filter (\<lambda>j. j mod 50 = 0) [Suc i..<n])
      = map (\<lambda>j. IterationLoss j (loss_m ((descend lr T D ^^ (j - Suc i)) (descend lr T D P)) T D))
          (filter (\<lambda>j. j mod 50 = 0) [Suc i..<n])"
    by (rule map_cong) (simp_all add: *)
  then show ?thesis
    using assms by (simp add: reports_def upt_conv_Cons)
qed

lemma reports_done: "\<not> i < n \<Longrightarrow> reports lr T D P i n = []"
  by (simp add: reports_def)

lemma for_range_train_step:
  "shapes_ok (cur_params s) T D \<Longrightarrow>
   for_range i n (train_step lr T D) s =
     Inr \<lparr>cur_params = (descend lr T D ^^ (n - i)) (cur_params s),
          printed = printed s @ reports lr T D (cur_params s) i n,
          rounds = rounds s + (n - i)\<rparr>"
proof (induction i n "train_step lr T D" s rule: for_range.induct)
  case (1 i n s)
  show ?case
  proof (cases "i < n")
    case True
    let ?s' = "\<lparr>cur_params = descend lr T D (cur_params s),
          printed = (if i mod 50 = 0 then printed s @ [IterationLoss i (loss_m (cur_params s) T D)]
                     else printed s),
          rounds = Suc (rounds s)\<rparr>"
    have step: "train_step lr T D i s = Inr ?s'"
      using "1.prems" by (simp add: train_step_eq)
    have ok': "shapes_ok (cur_params ?s') T D"
      using "1.prems" by simp
    have "for_range i n (train_step lr T D) s = for_range (Suc i) n (train_step lr T D) ?s'"
      using True step by (subst for_range.simps) simp
    also have "\<dots> = Inr \<lparr>cur_params = (descend lr T D ^^ (n - Suc i)) (cur_params ?s'),
          printed = printed ?s' @ reports lr T D (cur_params ?s') (Suc i) n,
          rounds = rounds ?s' + (n - Suc i)\<rparr>"
      using "1.hyps" [OF True step ok'] .
    also have "\<dots> = Inr \<lparr>cur_params = (descend lr T D ^^ (n - i)) (cur_params s),
          printed = printed s @ reports lr T D (cur_params s) i n,
          rounds = rounds s + (n - i)\<rparr>"
    proof -
      from True have "n - i = Suc (n - Suc i)" by simp
      then have "(descend lr T D ^^ (n - i)) (cur_params s)
               = (descend lr T D ^^ (n - Suc i)) (descend lr T D (cur_params s))"
        by (simp add: funpow_swap1)
      moreover from True have "rounds s + (n - i) = Suc (rounds s) + (n - Suc i)" by simp
      ultimately show ?thesis
        using True by (simp add: reports_step [OF True])
    qed
    finally show ?thesis .
  next
    case False
    then show ?thesis
      by (subst for_range.simps) (simp add: reports_done)
  qed
qed

lemma training_loop_ok:
  "shapes_ok P T D \<Longrightarrow>
   training_loop n lr P T D =
     Inr \<lparr>cur_params = (descend lr T D ^^ n) P, printed = reports lr T D P 0 n, rounds = n\<rparr>"
  by (simp add: training_loop_def for_range_train_step)

lemma training_loop_fails:
  "\<not> shapes_ok P T D \<Longrightarrow> 0 < n \<Longrightarrow> training_loop n lr P T D = Inl IncompatibleShapes"
  unfolding training_loop_def
  by (subst for_range.simps) (simp add: train_step_eq)

lemma training_cell_ok:
  "shapes_ok P T D \<Longrightarrow>
   training_cell n lr P T D =
     Inr \<lparr>cur_params = (descend lr T D ^^ n) P,
          printed = reports lr T D P 0 n @ [FinalLoss (loss_m ((descend lr T D ^^ n) P) T D)],
          rounds = n\<rparr>"
  by (simp add: training_cell_def training_loop_ok loss_eq)

text \<open>
  C5. A training run whose arrays have compatible shapes (so that the first round raises
  no shape error) executes the loop body exactly \<open>n\<close> times, whatever the losses are, and
  returns: the counter of completed rounds is \<open>n\<close>, and the parameters are the initial
  ones after \<open>n\<close> updates. With \<open>numrounds\<close> rounds, as in the notebook, that is 600.
\<close>

theorem training_loop_runs_all_rounds:
  assumes "shapes_ok P T D"
  shows "(\<exists>s. training_loop n lr P T D = Inr s \<and> rounds s = n
              \<and> cur_params s = (descend lr T D ^^ n) P)
       \<and> (\<exists>s. training_loop numrounds learning_rate P T D = Inr s \<and> rounds s = 600)"
  using assms by (simp add: training_loop_ok numrounds_def)

theorem training_loop_runs_all_rounds_witness:
  "\<exists>s. training_loop numrounds learning_rate ex_params ex_ratings ex_features = Inr s
       \<and> rounds s = 600"
  using training_loop_runs_all_rounds [of ex_params ex_ratings ex_features]
  by (simp add: shapes_ok_def ex_params_def ex_ratings_def ex_features_def)

section \<open>Rows of the parameters do not influence each other\<close>

lemma pred_m_row_cong:
  assumes "broadcastable (ncols D) (ncols P)" and "ncols P' = ncols P"
    and "\<forall>f<ncols P. entry P' u f = entry P u f"
  shows "entry (pred_m D P') j u = entry (pred_m D P) j u"
  unfolding pred_m_def using assms
  by (auto intro!: sum.cong dest: bidx_in_range(2))

lemma grad_m_row_cong:
  assumes ok: "shapes_ok P T D"
    and shapes: "nrows P' = nrows P" "ncols P' = ncols P" "nrows T' = nrows T" "ncols T' = ncols T"
    and agents: "ncols T = nrows P"
    and u: "u < nrows P"
    and col: "\<forall>i<nrows T. entry T' i u = entry T i u"
    and row: "\<forall>f<ncols P. entry P' u f = entry P u f"
  shows "entry (grad_m P' T' D) u f = entry (grad_m P T D) u f"
proof -
  let ?ct = "vjp_sub_rhs (pred_m D P)
                (vjp_abs (diff_m T (pred_m D P)) (vjp_mean (abs_m (diff_m T (pred_m D P)))))"
  let ?ct' = "vjp_sub_rhs (pred_m D P')
                (vjp_abs (diff_m T' (pred_m D P')) (vjp_mean (abs_m (diff_m T' (pred_m D P')))))"
  from ok have bF: "broadcastable (ncols D) (ncols P)" and bI: "broadcastable (nrows T) (nrows D)"
    by (simp_all add: shapes_ok_def)
  have pred: "entry (pred_m D P') j u = entry (pred_m D P) j u" for j
    using bF shapes(2) row by (rule pred_m_row_cong)
  have d: "entry (diff_m T' (pred_m D P')) i u = entry (diff_m T (pred_m D P)) i u"
    if "i < bc_extent (nrows T) (nrows D)" for i
  proof -
    have "bidx (nrows T) i < nrows T"
      using bI that by (rule bidx_in_range(1))
    with col have "entry T' (bidx (nrows T) i) u = entry T (bidx (nrows T) i) u"
      by simp
    then show ?thesis
      using u agents shapes pred by (simp add: diff_m_def)
  qed
  have ab: "entry (vjp_abs (diff_m T' (pred_m D P')) (vjp_mean (abs_m (diff_m T' (pred_m D P'))))) i u
          = entry (vjp_abs (diff_m T (pred_m D P)) (vjp_mean (abs_m (diff_m T (pred_m D P))))) i u"
    if "i < bc_extent (nrows T) (nrows D)" for i
    using d [OF that] shapes agents
    by (simp add: vjp_abs_def vjp_mean_def abs_m_def)
  have ct: "entry ?ct' i u = entry ?ct i u" if "i < nrows D" for i
  proof (cases "nrows D = bc_extent (nrows T) (nrows D)")
    case True
    with that have "i < bc_extent (nrows T) (nrows D)" by simp
    from ab [OF this] True show ?thesis
      using shapes agents
      by (simp add: vjp_sub_rhs_def unbroadcast_def vjp_abs_def vjp_mean_def abs_m_def)
  next
    case False
    have "(\<Sum>k<bc_extent (nrows T) (nrows D).
            entry (vjp_abs (diff_m T' (pred_m D P'))
                     (vjp_mean (abs_m (diff_m T' (pred_m D P'))))) k u)
        = (\<Sum>k<bc_extent (nrows T) (nrows D).
            entry (vjp_abs (diff_m T (pred_m D P))
                     (vjp_mean (abs_m (diff_m T (pred_m D P))))) k u)"
      by (intro sum.cong refl) (simp add: ab)
    with False show ?thesis
      using shapes agents
      by (simp add: vjp_sub_rhs_def unbroadcast_def vjp_abs_def vjp_mean_def abs_m_def)
  qed
  have "entry (vjp_calc_people_ratings (row D i) P' (row ?ct' i)) u f
      = entry (vjp_calc_people_ratings (row D i) P (row ?ct i)) u f"
    if "i < nrows D" for i
    using ct [OF that] shapes
    by (simp add: vjp_calc_people_ratings_def row_def unbroadcast_def)
  then show ?thesis
    by (simp add: grad_m_def vjp_vmap_calc_people_ratings_def)
qed

lemma descend_row_cong:
  assumes ok: "shapes_ok P T D"
    and shapes: "nrows P' = nrows P" "ncols P' = ncols P" "nrows T' = nrows T" "ncols T' = ncols T"
    and agents: "ncols T = nrows P"
    and u: "u < nrows P"
    and col: "\<forall>i<nrows T. entry T' i u = entry T i u"
    and row: "\<forall>f<ncols P. entry P' u f = entry P u f"
  shows "\<forall>f<ncols P. entry (descend lr T' D P') u f = entry (descend lr T D P) u f"
  using u shapes row grad_m_row_cong [OF assms]
  by (simp add: descend_def diff_m_def scale_def)

lemma funpow_descend_row_cong:
  assumes ok: "shapes_ok P T D"
    and shapes: "nrows P' = nrows P" "ncols P' = ncols P" "nrows T' = nrows T" "ncols T' = ncols T"
    and agents: "ncols T = nrows P"
    and u: "u < nrows P"
    and col: "\<forall>i<nrows T. entry T' i u = entry T i u"
    and row: "\<forall>f<ncols P. entry P' u f = entry P u f"
  shows "\<forall>f<ncols P. entry ((descend lr T' D ^^ n) P') u f = entry ((descend lr T D ^^ n) P) u f"
proof (induction n)
  case 0
  show ?case using row by simp
next
  case (Suc n)
  have "\<forall>f<ncols ((descend lr T D ^^ n) P).
          entry (descend lr T' D ((descend lr T' D ^^ n) P')) u f
        = entry (descend lr T D ((descend lr T D ^^ n) P)) u f"
    by (rule descend_row_cong) (use assms Suc in simp_all)
  then show ?case by simp
qed

text \<open>
  C10. Take two training runs with the same feature matrix, learning rate and number of
  rounds, whose parameter matrices have the same shape and whose target matrices have the
  same shape, with one target column per row of the parameters. If the targets agree on
  column \<open>u\<close> and the initial parameters agree on row \<open>u\<close>, both runs return and the
  fitted parameters agree on row \<open>u\<close>, whatever the other columns and rows are.
\<close>

theorem training_row_noninterference:
  assumes ok: "shapes_ok P T D"
    and shapes: "nrows P' = nrows P" "ncols P' = ncols P" "nrows T' = nrows T" "ncols T' = ncols T"
    and agents: "ncols T = nrows P"
    and u: "u < nrows P"
    and col: "\<forall>i<nrows T. entry T' i u = entry T i u"
    and row: "\<forall>f<ncols P. entry P' u f = entry P u f"
  shows "\<exists>s s'. training_loop n lr P T D = Inr s \<and> training_loop n lr P' T' D = Inr s'
           \<and> (\<forall>f<ncols P. entry (cur_params s') u f = entry (cur_params s) u f)"
proof -
  have ok': "shapes_ok P' T' D"
    using ok shapes by (simp add: shapes_ok_def)
  show ?thesis
    using funpow_descend_row_cong [OF assms]
    by (simp add: training_loop_ok [OF ok] training_loop_ok [OF ok'])
qed

theorem training_row_noninterference_witness:
  "\<exists>s s'. training_loop 3 learning_rate ex_params ex_ratings ex_features = Inr s
         \<and> training_loop 3 learning_rate ex_params' ex_ratings' ex_features = Inr s'
         \<and> entry (cur_params s') 0 0 = entry (cur_params s) 0 0
         \<and> entry (cur_params s') 0 1 = entry (cur_params s) 0 1"
proof -
  have ok: "shapes_ok ex_params ex_ratings ex_features"
    by (simp add: shapes_ok_def ex_params_def ex_ratings_def ex_features_def)
  have shapes: "nrows ex_params' = nrows ex_params" "ncols ex_params' = ncols ex_params"
    "nrows ex_ratings' = nrows ex_ratings" "ncols ex_ratings' = ncols ex_ratings"
    "ncols ex_ratings = nrows ex_params" "0 < nrows ex_params"
    by (simp_all add: ex_params_def ex_params'_def ex_ratings_def ex_ratings'_def)
  have col: "\<forall>i<nrows ex_ratings. entry ex_ratings' i 0 = entry ex_ratings i 0"
    by (simp add: ex_ratings_def ex_ratings'_def less_2_cases_iff)
  have row: "\<forall>f<ncols ex_params. entry ex_params' 0 f = entry ex_params 0 f"
    by (simp add: ex_params_def ex_params'_def less_2_cases_iff)
  from training_row_noninterference [OF ok shapes col row, of 3 learning_rate]
  obtain s s' where "training_loop 3 learning_rate ex_params ex_ratings ex_features = Inr s"
    and "training_loop 3 learning_rate ex_params' ex_ratings' ex_features = Inr s'"
    and eq: "\<forall>f<ncols ex_params. entry (cur_params s') 0 f = entry (cur_params s) 0 f"
    by blast
  moreover have "(0::nat) < ncols ex_params" "(1::nat) < ncols ex_params"
    by (simp_all add: ex_params_def)
  ultimately show ?thesis by blast
qed

section \<open>Shape errors\<close>

text \<open>
  C8, as amended. The batched predictor fails with a shape error exactly when the feature
  lengths of the two arguments differ and neither is 1; the loss and the gradient fail
  with a shape error exactly when that is so, or the item counts of target and features
  differ and neither is 1, or the agent counts of target and parameters differ and neither
  is 1. In every other case the differing axis of extent 1 is broadcast and a result is
  returned.
\<close>

theorem shape_error_iff_not_broadcastable:
  "vmap_calc_people_ratings D P
     = (if ncols D \<noteq> ncols P \<and> ncols D \<noteq> 1 \<and> ncols P \<noteq> 1
        then Inl IncompatibleShapes else Inr (pred_m D P))
   \<and> loss P T D
     = (if (ncols D \<noteq> ncols P \<and> ncols D \<noteq> 1 \<and> ncols P \<noteq> 1)
           \<or> (nrows T \<noteq> nrows D \<and> nrows T \<noteq> 1 \<and> nrows D \<noteq> 1)
           \<or> (ncols T \<noteq> nrows P \<and> ncols T \<noteq> 1 \<and> nrows P \<noteq> 1)
        then Inl IncompatibleShapes else Inr (loss_m P T D))
   \<and> grad_loss P T D
     = (if (ncols D \<noteq> ncols P \<and> ncols D \<noteq> 1 \<and> ncols P \<noteq> 1)
           \<or> (nrows T \<noteq> nrows D \<and> nrows T \<noteq> 1 \<and> nrows D \<noteq> 1)
           \<or> (ncols T \<noteq> nrows P \<and> ncols T \<noteq> 1 \<and> nrows P \<noteq> 1)
        then Inl IncompatibleShapes else Inr (grad_m P T D))"
  by (auto simp: vmap_calc_people_ratings_pred loss_eq grad_loss_eq shapes_ok_def
      broadcastable_def)

theorem shape_error_iff_not_broadcastable_witness:
  "loss ex_params (array2 2 3 [[0, 0, 0], [5, 0, 0]]) ex_features = Inl IncompatibleShapes
   \<and> grad_loss ex_params (array2 2 3 [[0, 0, 0], [5, 0, 0]]) ex_features
       = Inl IncompatibleShapes
   \<and> vmap_calc_people_ratings ex_features (array2 2 3 [[1, 2, 3], [0, 1, 0]])
       = Inl IncompatibleShapes"
  using shape_error_iff_not_broadcastable
          [of ex_features ex_params "array2 2 3 [[0, 0, 0], [5, 0, 0]]"]
    shape_error_iff_not_broadcastable
          [of ex_features "array2 2 3 [[1, 2, 3], [0, 1, 0]]" ex_ratings]
  by (simp add: ex_features_def ex_params_def)

text \<open>
  The claim as stated fails where one of two differing extents is 1: a target with one
  row against a feature matrix with two rows is broadcast, and the loss is returned.
\<close>

theorem item_count_mismatch_broadcasts:
  "nrows (array2 1 1 [[0]]) \<noteq> nrows (array2 2 1 [[1], [1]])
   \<and> loss (array2 1 1 [[1]]) (array2 1 1 [[0]]) (array2 2 1 [[1], [1]]) = Inr (Finite 1)"
  by (simp add: loss_eq loss_m_def shapes_ok_def broadcastable_def mean_def abs_m_def
      diff_m_def pred_m_def bc_extent_def bidx_def lessThan_2)

section \<open>The loop that fits the new members\<close>

lemma update_eq: "sub_bc P (scale (grad_m P T D) lr) = Inr (descend lr T D P)"
  by (simp add: sub_bc_eq descend_def)

lemma personalize_step_eq:
  "personalize_step lr r T S i s =
     (if shapes_ok (cur_params s) T (slice_rows S r)
      then Inr \<lparr>cur_params =
                  (if i mod 50 = 0
                   then descend lr T (slice_rows S r) (descend lr T (slice_rows S r) (cur_params s))
                   else descend lr T (slice_rows S r) (cur_params s)),
                printed =
                  (if i mod 50 = 0
                   then printed s @ [IterationLoss i
                          (loss_m (descend lr T (slice_rows S r) (cur_params s)) T (slice_rows S r))]
                   else printed s),
                rounds = Suc (rounds s)\<rparr>
      else Inl IncompatibleShapes)"
  by (simp add: personalize_step_def loss_eq grad_loss_eq update_eq)

lemma for_range_Suc:
  "i \<le> n \<Longrightarrow>
   for_range i (Suc n) body s =
     (case for_range i n body s of Inl e \<Rightarrow> Inl e | Inr s' \<Rightarrow> body n s')"
proof (induction i n body s rule: for_range.induct)
  case (1 i n body s)
  show ?case
  proof (cases "i < n")
    case True
    show ?thesis
    proof (cases "body i s")
      case (Inl e)
      with True show ?thesis
        by (simp add: for_range.simps [of i])
    next
      case (Inr s1)
      from True have "Suc i \<le> n" by simp
      from "1.IH" [OF True Inr this] Inr True show ?thesis
        by (simp add: for_range.simps [of i])
    qed
  next
    case False
    with "1.prems" have "i = n" by simp
    then show ?thesis
      by (simp add: for_range.simps [of n] for_range.simps [of "Suc n"] split: sum.splits)
  qed
qed

lemma filter_upt_Suc:
  "filter P [0..<Suc n] = filter P [0..<n] @ (if P n then [n] else [])"
  by simp

lemma shapes_ok_personalized [simp]:
  "shapes_ok (personalized lr T D n P) T D = shapes_ok P T D"
  by (induction n) simp_all

lemma personalization_loop_closed:
  assumes "shapes_ok P T (slice_rows S r)"
  shows "personalization_loop n lr r P T S =
     Inr \<lparr>cur_params = personalized lr T (slice_rows S r) n P,
          printed = map (\<lambda>j. IterationLoss j
                         (loss_m (descend lr T (slice_rows S r)
                                    (personalized lr T (slice_rows S r) j P))
                            T (slice_rows S r)))
                      (filter (\<lambda>j. j mod 50 = 0) [0..<n]),
          rounds = n\<rparr>"
proof (induction n)
  case 0
  show ?case
    by (simp add: personalization_loop_def for_range.simps)
next
  case (Suc n)
  then show ?case
    using assms
    by (simp add: personalization_loop_def for_range_Suc personalize_step_eq)
qed

lemma descend_one_by_one:
  assumes "nrows P = 1" "ncols P = 1" "nrows T = 1" "ncols T = 1" "nrows D = 1" "ncols D = 1"
  shows "entry (descend lr T D P) 0 0
       = entry P 0 0
         - (if entry T 0 0 < entry D 0 0 * entry P 0 0 then 1 else - 1) * entry D 0 0 * lr"
proof -
  have "entry (grad_m P T D) 0 0 = code_subgradient P T D 0 0"
    using assms by (intro grad_m_entry_proper) simp_all
  also have "\<dots> = (if entry T 0 0 < entry D 0 0 * entry P 0 0 then 1 else - 1) * entry D 0 0"
    using assms by (simp add: code_subgradient_def code_residual_sign_def dot_def row_def)
  finally show ?thesis
    using assms by (simp add: descend_def diff_m_def scale_def)
qed

lemma slice_rows_shape [simp]:
  "nrows (slice_rows M r) = min r (nrows M)" "ncols (slice_rows M r) = ncols M"
  "entry (slice_rows M r) = entry M"
  by (simp_all add: slice_rows_def)

text \<open>
  C4, at a failing input. One song with feature 1, one new member with parameter 1 and
  rating 0, learning rate 0.2: the prediction is 1, the gradient is 1, and one update
  \<open>params - gradient * learning_rate\<close> gives 0.8, which is what one round of the training
  loop returns. One round of the loop that fits the new members returns 0.6: in round 0,
  a round that reports, the parameters are updated a second time inside the reporting
  branch.
\<close>

theorem personalization_report_round_updates_twice:
  "map_sum id (\<lambda>s. entry (cur_params s) 0 0)
     (personalization_loop 1 learning_rate new_ratings
        (one_by_one 1) (one_by_one 0) (one_by_one 1)) = Inr (3 / 5)
   \<and> map_sum id (\<lambda>s. entry (cur_params s) 0 0)
     (training_loop 1 learning_rate (one_by_one 1) (one_by_one 0) (one_by_one 1)) = Inr (4 / 5)
   \<and> map_sum id (\<lambda>G. entry (one_by_one 1) 0 0 - entry G 0 0 * learning_rate)
     (grad_loss (one_by_one 1) (one_by_one 0) (one_by_one 1)) = Inr (4 / 5)"
proof -
  have ok: "shapes_ok (one_by_one 1) (one_by_one 0) (one_by_one 1)"
    by (simp add: shapes_ok_def one_by_one_def)
  have ok': "shapes_ok (one_by_one 1) (one_by_one 0) (slice_rows (one_by_one 1) new_ratings)"
    by (simp add: shapes_ok_def one_by_one_def new_ratings_def)
  have first: "entry (descend learning_rate (one_by_one 0) (one_by_one 1) (one_by_one 1)) 0 0
             = 4 / 5"
    by (subst descend_one_by_one) (simp_all add: one_by_one_def learning_rate_def)
  have first': "entry (descend learning_rate (one_by_one 0)
                  (slice_rows (one_by_one 1) new_ratings) (one_by_one 1)) 0 0 = 4 / 5"
    by (subst descend_one_by_one) (simp_all add: one_by_one_def learning_rate_def new_ratings_def)
  have second: "entry (descend learning_rate (one_by_one 0) (slice_rows (one_by_one 1) new_ratings)
                  (descend learning_rate (one_by_one 0)
                     (slice_rows (one_by_one 1) new_ratings) (one_by_one 1))) 0 0 = 3 / 5"
    by (subst descend_one_by_one)
      (simp_all add: first', simp_all add: one_by_one_def learning_rate_def new_ratings_def)
  have grad: "entry (grad_m (one_by_one 1) (one_by_one 0) (one_by_one 1)) 0 0 = 1"
    by (subst grad_m_entry_proper)
      (simp_all add: one_by_one_def code_subgradient_def code_residual_sign_def dot_def row_def)
  have "personalization_loop 1 learning_rate new_ratings
          (one_by_one 1) (one_by_one 0) (one_by_one 1)
      = Inr \<lparr>cur_params = descend learning_rate (one_by_one 0)
                 (slice_rows (one_by_one 1) new_ratings)
                 (descend learning_rate (one_by_one 0)
                    (slice_rows (one_by_one 1) new_ratings) (one_by_one 1)),
             printed = [IterationLoss 0 (loss_m (descend learning_rate (one_by_one 0)
                    (slice_rows (one_by_one 1) new_ratings) (one_by_one 1)) (one_by_one 0)
                    (slice_rows (one_by_one 1) new_ratings))],
             rounds = 1\<rparr>"
    using ok' by (simp add: personalization_loop_def for_range.simps personalize_step_eq)
  moreover have "training_loop 1 learning_rate (one_by_one 1) (one_by_one 0) (one_by_one 1)
      = Inr \<lparr>cur_params = descend learning_rate (one_by_one 0) (one_by_one 1) (one_by_one 1),
             printed = reports learning_rate (one_by_one 0) (one_by_one 1) (one_by_one 1) 0 1,
             rounds = 1\<rparr>"
    using ok by (simp add: training_loop_ok)
  ultimately show ?thesis
    using ok first second grad
    by (simp add: grad_loss_eq one_by_one_def learning_rate_def)
qed

section \<open>Runs in machine arithmetic\<close>

lemma farray2_sel [simp]:
  "frows (farray2 r c rows) = r" "fcols (farray2 r c rows) = c"
  "fentry (farray2 r c rows) i j = rows ! i ! j"
  by (simp_all add: farray2_def)

lemma fpred_m_shape [simp]: "frows (fpred_m rnd D P) = frows D" "fcols (fpred_m rnd D P) = frows P"
  by (simp_all add: fpred_m_def)

lemma fdiff_m_shape [simp]:
  "frows (fdiff_m rnd A B) = bc_extent (frows A) (frows B)"
  "fcols (fdiff_m rnd A B) = bc_extent (fcols A) (fcols B)"
  by (simp_all add: fdiff_m_def)

lemma fgrad_m_shape [simp]:
  "frows (fgrad_m rnd P T D) = frows P" "fcols (fgrad_m rnd P T D) = fcols P"
  by (simp_all add: fgrad_m_def fvjp_vmap_calc_people_ratings_def)

lemma fscale_shape [simp]: "frows (fscale rnd M c) = frows M" "fcols (fscale rnd M c) = fcols M"
  by (simp_all add: fscale_def)

lemma fdescend_shape [simp]:
  "frows (fdescend rnd lr T D P) = frows P" "fcols (fdescend rnd lr T D P) = fcols P"
  by (simp_all add: fdescend_def)

lemma fshapes_ok_descend [simp]:
  "fshapes_ok (fdescend rnd lr T D P) T D = fshapes_ok P T D"
  by (simp add: fshapes_ok_def)

lemma fshapes_ok_funpow [simp]:
  "fshapes_ok ((fdescend rnd lr T D ^^ k) P) T D = fshapes_ok P T D"
  by (induction k) simp_all

lemma fshapes_ok_personalized [simp]:
  "fshapes_ok (fpersonalized rnd lr T D n P) T D = fshapes_ok P T D"
  by (induction n) simp_all

lemma fvmap_calc_people_ratings_pred:
  "fvmap_calc_people_ratings rnd D P =
     (if broadcastable (fcols D) (fcols P) then Inr (fpred_m rnd D P)
      else Inl IncompatibleShapes)"
  by (simp add: fvmap_calc_people_ratings_def fvmap_axis0_def fcalc_people_ratings_def
      fmul_vec_mat_def broadcast_dim_def fsum_axis1_def frow_def fpred_m_def)

lemma fsub_bc_eq:
  "fsub_bc rnd A B =
     (if broadcastable (frows A) (frows B) \<and> broadcastable (fcols A) (fcols B)
      then Inr (fdiff_m rnd A B) else Inl IncompatibleShapes)"
  by (simp add: fsub_bc_def broadcast_dim_def fdiff_m_def)

lemma floss_eq:
  "floss rnd P T D =
     (if fshapes_ok P T D then Inr (floss_m rnd P T D) else Inl IncompatibleShapes)"
  by (simp add: floss_def fvmap_calc_people_ratings_pred fsub_bc_eq fshapes_ok_def floss_m_def)

lemma fgrad_loss_eq:
  "fgrad_loss rnd P T D =
     (if fshapes_ok P T D then Inr (fgrad_m rnd P T D) else Inl IncompatibleShapes)"
  by (simp add: fgrad_loss_def fvmap_calc_people_ratings_pred fsub_bc_eq fshapes_ok_def
      fgrad_m_def)

lemma fupdate_eq:
  "fsub_bc rnd P (fscale rnd (fgrad_m rnd P T D) lr) = Inr (fdescend rnd lr T D P)"
  by (simp add: fsub_bc_eq fdescend_def)

lemma ftrain_step_eq:
  "ftrain_step rnd lr T D i s =
     (if fshapes_ok (fcur_params s) T D
      then Inr \<lparr>fcur_params = fdescend rnd lr T D (fcur_params s),
                fprinted = (if i mod 50 = 0
                            then fprinted s @ [FIterationLoss i (floss_m rnd (fcur_params s) T D)]
                            else fprinted s),
                frounds = Suc (frounds s)\<rparr>
      else Inl IncompatibleShapes)"
  by (simp add: ftrain_step_def floss_eq fgrad_loss_eq fupdate_eq)

lemma fpersonalize_step_eq:
  "fpersonalize_step rnd lr r T S i s =
     (if fshapes_ok (fcur_params s) T (fslice_rows S r)
      then Inr \<lparr>fcur_params =
                  (if i mod 50 = 0
                   then fdescend rnd lr T (fslice_rows S r)
                          (fdescend rnd lr T (fslice_rows S r) (fcur_params s))
                   else fdescend rnd lr T (fslice_rows S r) (fcur_params s)),
                fprinted =
                  (if i mod 50 = 0
                   then fprinted s @ [FIterationLoss i
                          (floss_m rnd (fdescend rnd lr T (fslice_rows S r) (fcur_params s))
                             T (fslice_rows S r))]
                   else fprinted s),
                frounds = Suc (frounds s)\<rparr>
      else Inl IncompatibleShapes)"
  by (simp add: fpersonalize_step_def floss_eq fgrad_loss_eq fupdate_eq)

lemma ftraining_loop_closed:
  assumes "fshapes_ok P T D"
  shows "ftraining_loop rnd n lr P T D =
     Inr \<lparr>fcur_params = (fdescend rnd lr T D ^^ n) P,
          fprinted = map (\<lambda>j. FIterationLoss j (floss_m rnd ((fdescend rnd lr T D ^^ j) P) T D))
                       (filter (\<lambda>j. j mod 50 = 0) [0..<n]),
          frounds = n\<rparr>"
proof (induction n)
  case 0
  show ?case
    by (simp add: ftraining_loop_def for_range.simps)
next
  case (Suc n)
  then show ?case
    using assms
    by (simp add: ftraining_loop_def for_range_Suc ftrain_step_eq)
qed

lemma fpersonalization_loop_closed:
  assumes "fshapes_ok P T (fslice_rows S r)"
  shows "fpersonalization_loop rnd n lr r P T S =
     Inr \<lparr>fcur_params = fpersonalized rnd lr T (fslice_rows S r) n P,
          fprinted = map (\<lambda>j. FIterationLoss j
                          (floss_m rnd (fdescend rnd lr T (fslice_rows S r)
                                         (fpersonalized rnd lr T (fslice_rows S r) j P))
                             T (fslice_rows S r)))
                       (filter (\<lambda>j. j mod 50 = 0) [0..<n]),
          frounds = n\<rparr>"
proof (induction n)
  case 0
  show ?case
    by (simp add: fpersonalization_loop_def for_range.simps)
next
  case (Suc n)
  then show ?case
    using assms
    by (simp add: fpersonalization_loop_def for_range_Suc fpersonalize_step_eq)
qed

text \<open>
  Without rounding and on finite numbers, the functions of the machine model return what
  the functions in exact arithmetic return (for arrays with at least one entry in the
  loss; without entries both losses are NaN, and the cotangent 1/0 is never used).
\<close>

lemma to_f_shape [simp]: "frows (to_f M) = nrows M" "fcols (to_f M) = ncols M"
  by (simp_all add: to_f_def)

lemma fsum_Num: "fsum (\<lambda>x. x) (\<lambda>k. Num (g k)) n = Num (\<Sum>k<n. g k)"
  by (induction n) simp_all

lemma fpred_m_to_f: "fpred_m (\<lambda>x. x) (to_f D) (to_f P) = to_f (pred_m D P)"
  by (simp add: fpred_m_def pred_m_def to_f_def fsum_Num)

lemma fdiff_m_to_f: "fdiff_m (\<lambda>x. x) (to_f A) (to_f B) = to_f (diff_m A B)"
  by (simp add: fdiff_m_def diff_m_def to_f_def)

lemma fabs_m_to_f: "fabs_m (to_f M) = to_f (abs_m M)"
  by (simp add: fabs_m_def abs_m_def to_f_def)

lemma fmean_to_f: "fmean (\<lambda>x. x) (to_f M) = scalar_to_f (mean M)"
  by (simp add: fmean_def fcount_def mean_def to_f_def fsum_Num scalar_to_f_def)

lemma floss_m_to_f: "floss_m (\<lambda>x. x) (to_f P) (to_f T) (to_f D) = scalar_to_f (loss_m P T D)"
  by (simp add: floss_m_def loss_m_def fpred_m_to_f fdiff_m_to_f fabs_m_to_f fmean_to_f)

lemma fshapes_ok_to_f [simp]: "fshapes_ok (to_f P) (to_f T) (to_f D) = shapes_ok P T D"
  by (simp add: fshapes_ok_def shapes_ok_def)

lemma fvjp_mean_to_f:
  "0 < nrows a * ncols a \<Longrightarrow> fvjp_mean (\<lambda>x. x) (to_f a) = to_f (vjp_mean a)"
  by (simp add: fvjp_mean_def vjp_mean_def fcount_def to_f_def)

lemma fvjp_abs_to_f: "fvjp_abs (to_f d) (to_f ct) = to_f (vjp_abs d ct)"
  by (simp add: fvjp_abs_def vjp_abs_def to_f_def if_distrib [of Num] cong: if_cong)

lemma funbroadcast_Num:
  "funbroadcast (\<lambda>x. x) n b (\<lambda>k. Num (g k)) i = Num (unbroadcast n b g i)"
  by (simp add: funbroadcast_def unbroadcast_def fsum_Num)

lemma fvjp_sub_rhs_to_f: "fvjp_sub_rhs (\<lambda>x. x) (to_f B) (to_f ct) = to_f (vjp_sub_rhs B ct)"
  by (simp add: fvjp_sub_rhs_def vjp_sub_rhs_def to_f_def funbroadcast_Num)

lemma fvjp_vmap_to_f:
  "fvjp_vmap_calc_people_ratings (\<lambda>x. x) (to_f D) (to_f P) (to_f ct)
     = to_f (vjp_vmap_calc_people_ratings D P ct)"
  by (simp add: fvjp_vmap_calc_people_ratings_def vjp_vmap_calc_people_ratings_def
      fvjp_calc_people_ratings_def vjp_calc_people_ratings_def frow_def row_def to_f_def
      funbroadcast_Num fsum_Num)

lemma fgrad_m_to_f:
  assumes "0 < bc_extent (nrows T) (nrows D) * bc_extent (ncols T) (nrows P)"
  shows "fgrad_m (\<lambda>x. x) (to_f P) (to_f T) (to_f D) = to_f (grad_m P T D)"
  using assms
  by (simp add: fgrad_m_def grad_m_def fpred_m_to_f fdiff_m_to_f fabs_m_to_f fvjp_mean_to_f
      fvjp_abs_to_f fvjp_sub_rhs_to_f fvjp_vmap_to_f)

lemma fscale_to_f: "fscale (\<lambda>x. x) (to_f M) (Num c) = to_f (scale M c)"
  by (simp add: fscale_def scale_def to_f_def)

lemma fdescend_to_f:
  assumes "0 < bc_extent (nrows T) (nrows D) * bc_extent (ncols T) (nrows P)"
  shows "fdescend (\<lambda>x. x) (Num lr) (to_f T) (to_f D) (to_f P) = to_f (descend lr T D P)"
  using assms by (simp add: fdescend_def descend_def fgrad_m_to_f fscale_to_f fdiff_m_to_f)

lemma funpow_fdescend_to_f:
  assumes "0 < bc_extent (nrows T) (nrows D) * bc_extent (ncols T) (nrows P)"
  shows "(fdescend (\<lambda>x. x) (Num lr) (to_f T) (to_f D) ^^ n) (to_f P)
       = to_f ((descend lr T D ^^ n) P)"
  using assms by (induction n) (simp_all add: fdescend_to_f)

lemma ftraining_loop_to_f:
  assumes "shapes_ok P T D"
    and "0 < bc_extent (nrows T) (nrows D) * bc_extent (ncols T) (nrows P)"
  shows "ftraining_loop (\<lambda>x. x) n (Num lr) (to_f P) (to_f T) (to_f D)
       = map_sum id state_to_f (training_loop n lr P T D)"
  using assms
  by (simp add: ftraining_loop_closed training_loop_ok state_to_f_def reports_def
      funpow_fdescend_to_f floss_m_to_f line_to_f_def comp_def)

lemma fslice_rows_to_f: "fslice_rows (to_f S) r = to_f (slice_rows S r)"
  by (simp add: fslice_rows_def slice_rows_def to_f_def)

lemma fpersonalized_to_f:
  assumes "0 < bc_extent (nrows T) (nrows D) * bc_extent (ncols T) (nrows P)"
  shows "fpersonalized (\<lambda>x. x) (Num lr) (to_f T) (to_f D) n (to_f P)
       = to_f (personalized lr T D n P)"
proof (induction n)
  case 0
  show ?case by simp
next
  case (Suc n)
  have shape: "nrows (personalized lr T D n P) = nrows P"
    by (induction n) simp_all
  have "0 < bc_extent (nrows T) (nrows D) * bc_extent (ncols T) (nrows (personalized lr T D n P))"
    using assms shape by simp
  moreover have "0 < bc_extent (nrows T) (nrows D)
      * bc_extent (ncols T) (nrows (descend lr T D (personalized lr T D n P)))"
    using assms shape by simp
  ultimately show ?case
    using Suc by (simp add: fdescend_to_f)
qed

lemma fpersonalization_loop_to_f:
  assumes "shapes_ok P T (slice_rows S r)"
    and "0 < bc_extent (nrows T) (nrows (slice_rows S r)) * bc_extent (ncols T) (nrows P)"
  shows "fpersonalization_loop (\<lambda>x. x) n (Num lr) r (to_f P) (to_f T) (to_f S)
       = map_sum id state_to_f (personalization_loop n lr r P T S)"
proof -
  have shape: "nrows (personalized lr T (slice_rows S r) j P) = nrows P" for j
    by (induction j) simp_all
  have "fdescend (\<lambda>x. x) (Num lr) (to_f T) (to_f (slice_rows S r))
          (to_f (personalized lr T (slice_rows S r) j P))
      = to_f (descend lr T (slice_rows S r) (personalized lr T (slice_rows S r) j P))" for j
    using assms(2) by (intro fdescend_to_f) (simp add: shape)
  then show ?thesis
    using assms
    by (simp add: fpersonalization_loop_closed personalization_loop_closed fslice_rows_to_f
        fpersonalized_to_f floss_m_to_f state_to_f_def line_to_f_def comp_def)
qed

lemmas machine_defs =
  fdescend_def fdiff_m_def fscale_def fgrad_m_def fvjp_vmap_calc_people_ratings_def
  fvjp_calc_people_ratings_def fvjp_sub_rhs_def fvjp_abs_def fvjp_mean_def fpred_m_def
  fabs_m_def fcount_def fmean_def floss_m_def funbroadcast_def frow_def bc_extent_def bidx_def
  overflow32_def float32_max_def

lemma ftraining_cell_closed:
  assumes "fshapes_ok P T D"
  shows "ftraining_cell rnd n lr P T D =
     Inr \<lparr>fcur_params = (fdescend rnd lr T D ^^ n) P,
          fprinted = map (\<lambda>j. FIterationLoss j (floss_m rnd ((fdescend rnd lr T D ^^ j) P) T D))
                       (filter (\<lambda>j. j mod 50 = 0) [0..<n])
                     @ [FFinalLoss (floss_m rnd ((fdescend rnd lr T D ^^ n) P) T D)],
          frounds = n\<rparr>"
  using assms by (simp add: ftraining_cell_def ftraining_loop_closed floss_eq)

text \<open>
  C9, as amended. A non-finite value in the loss or in the gradient is neither detected
  nor reported as an anomaly. For every rounding, every learning rate and all entries of
  the arrays, finite or not, a run whose shapes are compatible raises nothing and does not
  stop early. The training loop executes all \<open>n\<close> rounds, each with the one update
  \<open>params - gradient * learning_rate\<close> whatever the gradient is, and prints, in the
  rounds divisible by 50 and after the loop, the loss such as it is. The loop that fits
  the new members executes all \<open>n\<close> rounds likewise. A non-finite value is carried on
  like any other: into the parameters, the later losses and the printed lines.
\<close>

theorem non_finite_values_are_not_detected:
  assumes "fshapes_ok P T D" and "fshapes_ok P' T' (fslice_rows S r)"
  shows "ftraining_loop rnd n lr P T D =
           Inr \<lparr>fcur_params = (fdescend rnd lr T D ^^ n) P,
                fprinted = map (\<lambda>j. FIterationLoss j
                                 (floss_m rnd ((fdescend rnd lr T D ^^ j) P) T D))
                             (filter (\<lambda>j. j mod 50 = 0) [0..<n]),
                frounds = n\<rparr>
       \<and> ftraining_cell rnd n lr P T D =
           Inr \<lparr>fcur_params = (fdescend rnd lr T D ^^ n) P,
                fprinted = map (\<lambda>j. FIterationLoss j
                                 (floss_m rnd ((fdescend rnd lr T D ^^ j) P) T D))
                             (filter (\<lambda>j. j mod 50 = 0) [0..<n])
                           @ [FFinalLoss (floss_m rnd ((fdescend rnd lr T D ^^ n) P) T D)],
                frounds = n\<rparr>
       \<and> fpersonalization_loop rnd n lr r P' T' S =
           Inr \<lparr>fcur_params = fpersonalized rnd lr T' (fslice_rows S r) n P',
                fprinted = map (\<lambda>j. FIterationLoss j
                                 (floss_m rnd (fdescend rnd lr T' (fslice_rows S r)
                                                (fpersonalized rnd lr T' (fslice_rows S r) j P'))
                                    T' (fslice_rows S r)))
                             (filter (\<lambda>j. j mod 50 = 0) [0..<n]),
                frounds = n\<rparr>"
  using assms
  by (simp add: ftraining_loop_closed ftraining_cell_closed fpersonalization_loop_closed)

theorem non_finite_values_are_not_detected_witness:
  "floss overflow32 zero_params nan_rating big_features = Inr NotANumber
   \<and> (\<exists>s. ftraining_loop overflow32 51 (Num (1 / 5)) zero_params nan_rating big_features = Inr s
          \<and> frounds s = 51 \<and> length (fprinted s) = 2
          \<and> hd (fprinted s) = FIterationLoss 0 NotANumber)
   \<and> (\<exists>s. fpersonalization_loop overflow32 51 (Num (1 / 5)) new_ratings
            zero_params nan_rating big_features = Inr s
          \<and> frounds s = 51 \<and> length (fprinted s) = 2)"
proof -
  have ok: "fshapes_ok zero_params nan_rating big_features"
    by (simp add: fshapes_ok_def zero_params_def nan_rating_def big_features_def)
  have ok': "fshapes_ok zero_params nan_rating (fslice_rows big_features new_ratings)"
    by (simp add: fshapes_ok_def zero_params_def nan_rating_def big_features_def
        fslice_rows_def new_ratings_def)
  have l: "floss_m overflow32 zero_params nan_rating big_features = NotANumber"
    by (simp add: machine_defs big_features_def nan_rating_def zero_params_def)
  have f: "filter (\<lambda>i. i mod 50 = 0) [0..<51] = [0, 50]"
    by code_simp
  from non_finite_values_are_not_detected
         [OF ok ok', where rnd = overflow32 and n = 51 and lr = "Num (1 / 5)"]
  show ?thesis
    using ok l by (simp add: f floss_eq)
qed

text \<open>
  The claim as stated fails on a run with a large learning rate. Feature 2^70, parameter
  0, rating 1, learning rate 2^70 (all of them 32-bit floating-point numbers), in an
  arithmetic with the range of 32-bit floats. In round 0 the loss is 1 and the gradient
  -2^70; gradient times learning rate exceeds the range, and the parameter becomes
  infinite. In round 1 the loss is infinite; nothing is raised and nothing printed, and
  the update makes the parameter NaN. The run returns after both rounds; its output is the
  loss 1 of round 0 and a final loss of NaN.
\<close>

theorem overflow_run_continues:
  "floss overflow32 zero_params one_rating big_features = Inr (Num 1)
   \<and> map_sum id (\<lambda>G. fentry G 0 0) (fgrad_loss overflow32 zero_params one_rating big_features)
       = Inr (Num (- (2 ^ 70)))
   \<and> map_sum id (\<lambda>s. fentry (fcur_params s) 0 0)
       (ftraining_loop overflow32 1 (Num (2 ^ 70)) zero_params one_rating big_features)
       = Inr PosInf
   \<and> (case ftraining_loop overflow32 1 (Num (2 ^ 70)) zero_params one_rating big_features of
         Inl e \<Rightarrow> Inl e
       | Inr s \<Rightarrow> floss overflow32 (fcur_params s) one_rating big_features) = Inr PosInf
   \<and> map_sum id frounds
       (ftraining_loop overflow32 2 (Num (2 ^ 70)) zero_params one_rating big_features) = Inr 2
   \<and> map_sum id (\<lambda>s. fentry (fcur_params s) 0 0)
       (ftraining_loop overflow32 2 (Num (2 ^ 70)) zero_params one_rating big_features)
       = Inr NotANumber
   \<and> map_sum id fprinted
       (ftraining_cell overflow32 2 (Num (2 ^ 70)) zero_params one_rating big_features)
       = Inr [FIterationLoss 0 (Num 1), FFinalLoss NotANumber]"
proof -
  have ok: "fshapes_ok zero_params one_rating big_features"
    by (simp add: fshapes_ok_def zero_params_def one_rating_def big_features_def)
  have ok1: "fshapes_ok (fdescend overflow32 (Num (2 ^ 70)) one_rating big_features zero_params)
               one_rating big_features"
    using ok by simp
  have loss0: "floss_m overflow32 zero_params one_rating big_features = Num 1"
    by (simp add: machine_defs big_features_def one_rating_def zero_params_def)
  have grad0: "fentry (fgrad_m overflow32 zero_params one_rating big_features) 0 0
             = Num (- (2 ^ 70))"
    by (simp add: machine_defs big_features_def one_rating_def zero_params_def)
  have params1:
    "fentry (fdescend overflow32 (Num (2 ^ 70)) one_rating big_features zero_params) 0 0
       = PosInf"
    by (simp add: machine_defs big_features_def one_rating_def zero_params_def)
  have loss1:
    "floss_m overflow32 (fdescend overflow32 (Num (2 ^ 70)) one_rating big_features zero_params)
       one_rating big_features = PosInf"
    by (simp add: machine_defs big_features_def one_rating_def zero_params_def)
  have params2:
    "fentry ((fdescend overflow32 (Num (2 ^ 70)) one_rating big_features ^^ 2) zero_params) 0 0
       = NotANumber"
    by (simp add: machine_defs big_features_def one_rating_def zero_params_def numeral_2_eq_2)
  have loss2:
    "floss_m overflow32
       ((fdescend overflow32 (Num (2 ^ 70)) one_rating big_features ^^ 2) zero_params)
       one_rating big_features = NotANumber"
    by (simp add: machine_defs big_features_def one_rating_def zero_params_def numeral_2_eq_2)
  have f1: "filter (\<lambda>i. i mod 50 = 0) [0..<1] = [0]"
    by simp
  have f2: "filter (\<lambda>i. i mod 50 = 0) [0..<2] = [0]"
    by (simp add: numeral_2_eq_2)
  show ?thesis
    using ok ok1 loss0 grad0 params1 loss1 params2 loss2
    by (simp add: floss_eq fgrad_loss_eq ftraining_loop_closed ftraining_cell_closed f1 f2)
qed

end
